theory Spec2Isabelle
  imports Main
begin

section \<open>Go maps on a heap\<close>

text \<open>
  A Go map value is a reference. The heap is the list of all maps allocated so far, the
  address of a map is its index, and \<open>NilMap\<close> is the nil map. \<open>make(map[string]string)\<close>
  appends a new empty map, so its address is one that no earlier reference holds.
\<close>

type_synonym gomap = "string \<rightharpoonup> string"

type_synonym heap = "gomap list"

datatype mapref = NilMap | MapAt nat

definition valid_ref :: "heap \<Rightarrow> mapref \<Rightarrow> bool" where
  "valid_ref h m = (case m of NilMap \<Rightarrow> True | MapAt a \<Rightarrow> a < length h)"

definition make_map :: "heap \<Rightarrow> heap \<times> mapref" where
  "make_map h = (h @ [Map.empty], MapAt (length h))"

text \<open>\<open>value, found := m[key]\<close>: reading the nil map finds nothing.\<close>

definition map_index :: "heap \<Rightarrow> mapref \<Rightarrow> string \<Rightarrow> string option" where
  "map_index h m key =
     (case m of
        NilMap \<Rightarrow> None
      | MapAt a \<Rightarrow> if a < length h then (h ! a) key else None)"

text \<open>\<open>m[key] = value\<close>: assignment to an entry of the nil map panics (\<open>None\<close>).\<close>

definition map_assign :: "heap \<Rightarrow> mapref \<Rightarrow> string \<Rightarrow> string \<Rightarrow> heap option" where
  "map_assign h m key v =
     (case m of
        NilMap \<Rightarrow> None
      | MapAt a \<Rightarrow> if a < length h then Some (h[a := (h ! a)(key \<mapsto> v)]) else None)"

text \<open>The contents of a map as a value; the nil map reads as the empty map.\<close>

definition deref :: "heap \<Rightarrow> mapref \<Rightarrow> gomap" where
  "deref h m = (\<lambda>key. map_index h m key)"

section \<open>Checksum annotations (kube\_api\_server\_deployments.go)\<close>

text \<open>The body of \<open>for _, key := range keys\<close> in \<open>addChecksumsToAnnotations\<close>.\<close>

fun addChecksumsToAnnotations_loop ::
  "heap \<Rightarrow> mapref \<Rightarrow> string list \<Rightarrow> mapref \<Rightarrow> heap option" where
  "addChecksumsToAnnotations_loop h checksums [] annotations = Some h"
| "addChecksumsToAnnotations_loop h checksums (key # keys) annotations =
     (case map_index h checksums key of
        Some v \<Rightarrow>
          (case map_assign h annotations key v of
             None \<Rightarrow> None
           | Some h' \<Rightarrow> addChecksumsToAnnotations_loop h' checksums keys annotations)
      | None \<Rightarrow> addChecksumsToAnnotations_loop h checksums keys annotations)"

definition addChecksumsToAnnotations ::
  "heap \<Rightarrow> mapref \<Rightarrow> string list \<Rightarrow> (heap \<times> mapref) option" where
  "addChecksumsToAnnotations h checksums keys =
     (case make_map h of
        (h1, annotations) \<Rightarrow>
          (case addChecksumsToAnnotations_loop h1 checksums keys annotations of
             None \<Rightarrow> None
           | Some h2 \<Rightarrow> Some (h2, annotations)))"

text \<open>
  The eleven \<open>ChecksumKey...\<close> constants are declared in a file of the package that is not
  part of the sources at hand; they are taken as a parameter.
\<close>

record checksum_keys =
  ChecksumKeyKubeAPIServerAuditPolicyConfig :: string
  ChecksumKeyKubeAPIServerEncryptionConfig :: string
  ChecksumKeyKubeAggregatorCA :: string
  ChecksumKeyKubeAggregatorClient :: string
  ChecksumKeyKubeAPIServerCA :: string
  ChecksumKeyKubeAPIServerServer :: string
  ChecksumKeyKubeAPIServerAuditWebhookConfig :: string
  ChecksumKeyKubeAPIServerAuthWebhookConfig :: string
  ChecksumKeyKubeAPIServerOidcAuthenticationWebhookConfig :: string
  ChecksumKeyKubeAPIServerStaticToken :: string
  ChecksumKeyKubeAPIServerAdmissionConfig :: string

definition apiServerChecksumKeys :: "checksum_keys \<Rightarrow> string list" where
  "apiServerChecksumKeys K =
     [ChecksumKeyKubeAPIServerAuditPolicyConfig K,
      ChecksumKeyKubeAPIServerEncryptionConfig K,
      ChecksumKeyKubeAggregatorCA K,
      ChecksumKeyKubeAggregatorClient K,
      ChecksumKeyKubeAPIServerCA K,
      ChecksumKeyKubeAPIServerServer K,
      ChecksumKeyKubeAPIServerAuditWebhookConfig K,
      ChecksumKeyKubeAPIServerAuthWebhookConfig K,
      ChecksumKeyKubeAPIServerOidcAuthenticationWebhookConfig K,
      ChecksumKeyKubeAPIServerStaticToken K,
      ChecksumKeyKubeAPIServerAdmissionConfig K]"

definition computeApiServerAnnotations ::
  "checksum_keys \<Rightarrow> heap \<Rightarrow> mapref \<Rightarrow> (heap \<times> mapref) option" where
  "computeApiServerAnnotations K h checksums =
     addChecksumsToAnnotations h checksums (apiServerChecksumKeys K)"

section \<open>The resource store and the random source\<close>

text \<open>
  A \<open>[]byte\<close> is a list of characters; the nil slice and the empty slice are both \<open>[]\<close>.
  An object of the store is addressed by its namespace and name.
\<close>

type_synonym bytes = string

type_synonym ObjectKey = "string \<times> string"

datatype error =
    NotFound
  | AlreadyExists
  | StoreError string
  | RandomError string
  | MarshalError string

text \<open>
  A method either returns its \<open>error\<close> (\<open>None\<close> is Go's nil) or panics.
\<close>

datatype status = Returned "error option" | Panicked

text \<open>A \<open>corev1.Secret\<close>: its identity and its \<open>Data\<close>, a map that may be nil.\<close>

record Secret =
  secretNamespace :: string
  secretName :: string
  Data :: "(string \<rightharpoonup> bytes) option"

datatype call =
    GetSecret ObjectKey
  | CreateSecret ObjectKey
  | UpdateSecret ObjectKey
  | DeleteSecret ObjectKey
  | DeleteDeployment ObjectKey

text \<open>
  Everything outside the process: the secrets (the \<open>Data\<close> of each, under its key) and
  the deployments the store holds, the requests the client has sent so far (\<open>calls\<close>),
  the failures the store will answer with (\<open>faults\<close>: the request number \<open>i\<close> fails with
  \<open>StoreError msg\<close> when \<open>faults i = Some msg\<close>), and the random source (\<open>random i n\<close> is
  what the read number \<open>i\<close>, of \<open>n\<close> bytes, returns) with the number of reads made so far.
\<close>

record world =
  secrets :: "ObjectKey \<rightharpoonup> (string \<rightharpoonup> bytes) option"
  deployments :: "ObjectKey set"
  calls :: "call list"
  faults :: "nat \<Rightarrow> string option"
  random :: "nat \<Rightarrow> nat \<Rightarrow> string + bytes"
  random_reads :: nat

definition GetKey :: "Secret \<Rightarrow> ObjectKey" where
  "GetKey s = (secretNamespace s, secretName s)"

text \<open>\<open>client.IgnoreNotFound\<close>: nil for nil and for a NotFound error, the error otherwise.\<close>

definition IgnoreNotFound :: "error option \<Rightarrow> error option" where
  "IgnoreNotFound err =
     (case err of None \<Rightarrow> None | Some e \<Rightarrow> if e = NotFound then None else Some e)"

text \<open>
  Modelled from the spec: the resource store of section 6 (\<open>Get\<close>, \<open>CreateOrUpdate\<close>,
  \<open>Delete\<close>), whose client (controller-runtime) is not part of the sources. \<open>Get\<close> fills
  the object it is given with the stored state when the object is found and leaves it as
  it is otherwise. \<open>Create\<close> fails on an object that exists, \<open>Update\<close> and \<open>Delete\<close> fail
  with \<open>NotFound\<close> on one that does not.
\<close>

definition client_Get :: "ObjectKey \<Rightarrow> Secret \<Rightarrow> world \<Rightarrow> error option \<times> Secret \<times> world" where
  "client_Get key obj w =
     (let w' = w\<lparr>calls := calls w @ [GetSecret key]\<rparr> in
      case faults w (length (calls w)) of
        Some msg \<Rightarrow> (Some (StoreError msg), obj, w')
      | None \<Rightarrow>
          (case secrets w key of
             None \<Rightarrow> (Some NotFound, obj, w')
           | Some d \<Rightarrow>
               (None, obj\<lparr>secretNamespace := fst key, secretName := snd key, Data := d\<rparr>, w')))"

definition client_Create :: "Secret \<Rightarrow> world \<Rightarrow> error option \<times> world" where
  "client_Create obj w =
     (let w' = w\<lparr>calls := calls w @ [CreateSecret (GetKey obj)]\<rparr> in
      case faults w (length (calls w)) of
        Some msg \<Rightarrow> (Some (StoreError msg), w')
      | None \<Rightarrow>
          (case secrets w (GetKey obj) of
             Some d \<Rightarrow> (Some AlreadyExists, w')
           | None \<Rightarrow> (None, w'\<lparr>secrets := (secrets w)(GetKey obj \<mapsto> Data obj)\<rparr>)))"

definition client_Update :: "Secret \<Rightarrow> world \<Rightarrow> error option \<times> world" where
  "client_Update obj w =
     (let w' = w\<lparr>calls := calls w @ [UpdateSecret (GetKey obj)]\<rparr> in
      case faults w (length (calls w)) of
        Some msg \<Rightarrow> (Some (StoreError msg), w')
      | None \<Rightarrow>
          (case secrets w (GetKey obj) of
             None \<Rightarrow> (Some NotFound, w')
           | Some d \<Rightarrow> (None, w'\<lparr>secrets := (secrets w)(GetKey obj \<mapsto> Data obj)\<rparr>)))"

definition client_Delete_Secret :: "Secret \<Rightarrow> world \<Rightarrow> error option \<times> world" where
  "client_Delete_Secret obj w =
     (let w' = w\<lparr>calls := calls w @ [DeleteSecret (GetKey obj)]\<rparr> in
      case faults w (length (calls w)) of
        Some msg \<Rightarrow> (Some (StoreError msg), w')
      | None \<Rightarrow>
          (case secrets w (GetKey obj) of
             None \<Rightarrow> (Some NotFound, w')
           | Some d \<Rightarrow> (None, w'\<lparr>secrets := (secrets w)(GetKey obj := None)\<rparr>)))"

definition client_Delete_Deployment :: "ObjectKey \<Rightarrow> world \<Rightarrow> error option \<times> world" where
  "client_Delete_Deployment key w =
     (let w' = w\<lparr>calls := calls w @ [DeleteDeployment key]\<rparr> in
      case faults w (length (calls w)) of
        Some msg \<Rightarrow> (Some (StoreError msg), w')
      | None \<Rightarrow>
          (if key \<in> deployments w
           then (None, w'\<lparr>deployments := deployments w - {key}\<rparr>)
           else (Some NotFound, w')))"

text \<open>The contents of \<open>Data\<close> as a map; a nil \<open>Data\<close> reads as the empty map.\<close>

definition contents :: "(string \<rightharpoonup> bytes) option \<Rightarrow> (string \<rightharpoonup> bytes)" where
  "contents d = (case d of None \<Rightarrow> Map.empty | Some m \<Rightarrow> m)"

definition data_of :: "Secret \<Rightarrow> (string \<rightharpoonup> bytes)" where
  "data_of s = contents (Data s)"

text \<open>\<open>secret.Data[key]\<close>: the nil slice when the key or the map is missing.\<close>

definition Data_index :: "Secret \<Rightarrow> string \<Rightarrow> bytes" where
  "Data_index s key = (case data_of s key of None \<Rightarrow> [] | Some v \<Rightarrow> v)"

text \<open>
  \<open>secret.Data[key] = v\<close>. Every assignment of the source comes after
  \<open>if secret.Data == nil { secret.Data = make(map[string][]byte) }\<close>, so \<open>Data\<close> is not nil
  where it is assigned.
\<close>

definition Data_assign :: "Secret \<Rightarrow> string \<Rightarrow> bytes \<Rightarrow> Secret" where
  "Data_assign s key v = s\<lparr>Data := Some ((data_of s)(key \<mapsto> v))\<rparr>"

text \<open>Semantic equality of two secrets: a nil map and an empty map are equal.\<close>

definition DeepEqual :: "Secret \<Rightarrow> Secret \<Rightarrow> bool" where
  "DeepEqual s t \<longleftrightarrow>
     secretNamespace s = secretNamespace t \<and> secretName s = secretName t \<and>
     data_of s = data_of t"

datatype OperationResult =
  OperationResultNone | OperationResultCreated | OperationResultUpdated

text \<open>
  Modelled from the spec: \<open>controllerutil.CreateOrUpdate\<close>, the reconciler of section 4.3,
  which is not part of the sources. It fetches the current state of the object; when the
  object is absent it applies \<open>mutate\<close> to the object it was given and creates it; when
  the object is present it applies \<open>mutate\<close> to the fetched state and updates the store
  unless nothing changed. It returns whether the object was created, updated or left
  unchanged, and any error of the store or of \<open>mutate\<close>.
\<close>

definition CreateOrUpdate ::
  "Secret \<Rightarrow> (Secret \<Rightarrow> error option \<times> Secret) \<Rightarrow> world \<Rightarrow>
     (OperationResult \<times> error option) \<times> Secret \<times> world" where
  "CreateOrUpdate obj mutate w =
     (case client_Get (GetKey obj) obj w of
        (Some e, obj1, w1) \<Rightarrow>
          (if e \<noteq> NotFound then ((OperationResultNone, Some e), obj1, w1)
           else
             (case mutate obj1 of
                (Some e', obj2) \<Rightarrow> ((OperationResultNone, Some e'), obj2, w1)
              | (None, obj2) \<Rightarrow>
                  (case client_Create obj2 w1 of
                     (Some e', w2) \<Rightarrow> ((OperationResultNone, Some e'), obj2, w2)
                   | (None, w2) \<Rightarrow> ((OperationResultCreated, None), obj2, w2))))
      | (None, existing, w1) \<Rightarrow>
          (case mutate existing of
             (Some e', obj2) \<Rightarrow> ((OperationResultNone, Some e'), obj2, w1)
           | (None, obj2) \<Rightarrow>
               (if DeepEqual existing obj2 then ((OperationResultNone, None), obj2, w1)
                else
                  (case client_Update obj2 w1 of
                     (Some e', w2) \<Rightarrow> ((OperationResultNone, Some e'), obj2, w2)
                   | (None, w2) \<Rightarrow> ((OperationResultUpdated, None), obj2, w2)))))"

text \<open>
  \<open>utils.GenerateRandomString\<close> and \<open>crypto/rand.Read\<close> take the next value of the random
  source; either may fail.
\<close>

definition GenerateRandomString :: "nat \<Rightarrow> world \<Rightarrow> (error + string) \<times> world" where
  "GenerateRandomString n w =
     (let w' = w\<lparr>random_reads := Suc (random_reads w)\<rparr> in
      case random w (random_reads w) n of
        Inl msg \<Rightarrow> (Inl (RandomError msg), w')
      | Inr s \<Rightarrow> (Inr s, w'))"

definition cryptorand_Read :: "nat \<Rightarrow> world \<Rightarrow> (error + bytes) \<times> world" where
  "cryptorand_Read n w =
     (let w' = w\<lparr>random_reads := Suc (random_reads w)\<rparr> in
      case random w (random_reads w) n of
        Inl msg \<Rightarrow> (Inl (RandomError msg), w')
      | Inr bs \<Rightarrow> (Inr bs, w'))"

section \<open>Secrets of the kube-apiserver (kube\_api\_server\_secrets.go)\<close>

record GardenerControlplane =
  ValidatingWebhookEnabled :: bool
  MutatingWebhookEnabled :: bool

record AuditWebhookConfig =
  Config :: string

record KubeAPIServer =
  GardenerControlplane :: GardenerControlplane
  AuditWebhookConfig :: AuditWebhookConfig

text \<open>\<open>VirtualGarden.KubeAPIServer\<close> is a pointer: \<open>None\<close> is nil.\<close>

record VirtualGarden =
  KubeAPIServer :: "KubeAPIServer option"

record Imports =
  VirtualGarden :: VirtualGarden

record operation =
  namespace :: string
  handleNamespace :: bool
  "imports" :: Imports

datatype Key = Key string string

datatype ProviderConfiguration = AESCBC "Key list" | Identity

datatype ResourceConfiguration = ResourceConfiguration "string list" "ProviderConfiguration list"

datatype EncryptionConfiguration = EncryptionConfiguration "ResourceConfiguration list"

text \<open>
  What the package takes from outside the sources at hand: the constant \<open>Prefix\<close>, the two
  embedded kubeconfig files, and the library functions \<open>utils.EncodeBase64\<close> and
  \<open>yaml.Marshal\<close> (which may fail).
\<close>

record package =
  Prefix :: string
  validatingWebhookKubeconfig :: bytes
  mutatingWebhookKubeconfig :: bytes
  EncodeBase64 :: "bytes \<Rightarrow> string"
  yaml_Marshal :: "EncryptionConfiguration \<Rightarrow> string + bytes"

definition KubeApiServerSecretNameAdmissionKubeconfig :: "package \<Rightarrow> string" where
  "KubeApiServerSecretNameAdmissionKubeconfig P = Prefix P @ ''-kube-apiserver-admission-kubeconfig''"

definition KubeApiServerSecretNameAuditWebhookConfig :: string where
  "KubeApiServerSecretNameAuditWebhookConfig = ''kube-apiserver-audit-webhook-config''"

definition KubeApiServerSecretNameBasicAuth :: "package \<Rightarrow> string" where
  "KubeApiServerSecretNameBasicAuth P = Prefix P @ ''-kube-apiserver-basic-auth''"

definition KubeApiServerSecretNameEncryptionConfig :: "package \<Rightarrow> string" where
  "KubeApiServerSecretNameEncryptionConfig P = Prefix P @ ''-kube-apiserver-encryption-config''"

definition emptySecret :: "operation \<Rightarrow> string \<Rightarrow> Secret" where
  "emptySecret op name = \<lparr>secretNamespace = namespace op, secretName = name, Data = None\<rparr>"

definition deployKubeApiServerSecretAdmissionKubeconfig ::
  "package \<Rightarrow> operation \<Rightarrow> world \<Rightarrow> status \<times> world" where
  "deployKubeApiServerSecretAdmissionKubeconfig P op w =
     (case KubeAPIServer (VirtualGarden (imports op)) of
        None \<Rightarrow> (Panicked, w)
      | Some apiserver \<Rightarrow>
          (let controlplane = GardenerControlplane apiserver in
           if \<not> ValidatingWebhookEnabled controlplane \<and> \<not> MutatingWebhookEnabled controlplane
           then (Returned None, w)
           else
             (let secret = emptySecret op (KubeApiServerSecretNameAdmissionKubeconfig P) in
              case CreateOrUpdate secret
                     (\<lambda>secret.
                        let secret = (if Data secret = None
                                      then secret\<lparr>Data := Some Map.empty\<rparr> else secret);
                            secret = Data_assign secret ''validating-webhook''
                                       (validatingWebhookKubeconfig P);
                            secret = Data_assign secret ''mutating-webhook''
                                       (mutatingWebhookKubeconfig P)
                        in (None, secret)) w of
                ((_, err), _, w') \<Rightarrow> (Returned err, w'))))"

definition deployKubeApiServerSecretAuditWebhookConfig ::
  "package \<Rightarrow> operation \<Rightarrow> world \<Rightarrow> status \<times> world" where
  "deployKubeApiServerSecretAuditWebhookConfig P op w =
     (case KubeAPIServer (VirtualGarden (imports op)) of
        None \<Rightarrow> (Panicked, w)
      | Some apiserver \<Rightarrow>
          (let config = Config (AuditWebhookConfig apiserver) in
           if length config = 0 then (Returned None, w)
           else
             (let secret = emptySecret op KubeApiServerSecretNameAuditWebhookConfig in
              case CreateOrUpdate secret
                     (\<lambda>secret.
                        let secret = (if Data secret = None
                                      then secret\<lparr>Data := Some Map.empty\<rparr> else secret);
                            secret = Data_assign secret ''audit-webhook-config.yaml'' config
                        in (None, secret)) w of
                ((_, err), _, w') \<Rightarrow> (Returned err, w'))))"

definition deployKubeApiServerSecretBasicAuth ::
  "package \<Rightarrow> operation \<Rightarrow> world \<Rightarrow> status \<times> world" where
  "deployKubeApiServerSecretBasicAuth P op w =
     (let basicAuthKey = ''basic_auth.csv'';
          secret = emptySecret op (KubeApiServerSecretNameBasicAuth P);
          store = (\<lambda>secret basicAuthValue w.
                     case CreateOrUpdate secret
                            (\<lambda>secret.
                               let secret = (if Data secret = None
                                             then secret\<lparr>Data := Some Map.empty\<rparr> else secret);
                                   secret = Data_assign secret basicAuthKey basicAuthValue
                               in (None, secret)) w of
                       ((_, err), _, w') \<Rightarrow> (Returned err, w'))
      in
      case client_Get (GetKey secret) secret w of
        (err, secret, w1) \<Rightarrow>
          (if err \<noteq> None then
             (if IgnoreNotFound err \<noteq> None then (Returned err, w1)
              else
                (case GenerateRandomString 32 w1 of
                   (Inl err2, w2) \<Rightarrow> (Returned (Some err2), w2)
                 | (Inr pw, w2) \<Rightarrow> store secret (pw @ '',admin,admin,system:masters'') w2))
           else store secret (Data_index secret basicAuthKey) w1))"

definition generateNewEncryptionConfig :: "package \<Rightarrow> world \<Rightarrow> (error + bytes) \<times> world" where
  "generateNewEncryptionConfig P w =
     (case cryptorand_Read 32 w of
        (Inl err, w1) \<Rightarrow> (Inl err, w1)
      | (Inr secretBytes, w1) \<Rightarrow>
          (let secretString = EncodeBase64 P secretBytes;
               encryptionConfig =
                 EncryptionConfiguration
                   [ResourceConfiguration [''secrets'']
                      [AESCBC [Key ''key'' secretString], Identity]]
           in case yaml_Marshal P encryptionConfig of
                Inl msg \<Rightarrow> (Inl (MarshalError msg), w1)
              | Inr out \<Rightarrow> (Inr out, w1)))"

definition deployKubeApiServerSecretEncryptionConfig ::
  "package \<Rightarrow> operation \<Rightarrow> world \<Rightarrow> status \<times> world" where
  "deployKubeApiServerSecretEncryptionConfig P op w =
     (let encryptionConfigKey = ''encryption-config.yaml'';
          secret = emptySecret op (KubeApiServerSecretNameEncryptionConfig P);
          store = (\<lambda>secret encryptionConfigValue w.
                     case CreateOrUpdate secret
                            (\<lambda>secret.
                               let secret = (if Data secret = None
                                             then secret\<lparr>Data := Some Map.empty\<rparr> else secret);
                                   secret = Data_assign secret encryptionConfigKey
                                              encryptionConfigValue
                               in (None, secret)) w of
                       ((_, err), _, w') \<Rightarrow> (Returned err, w'))
      in
      case client_Get (GetKey secret) secret w of
        (err, secret, w1) \<Rightarrow>
          (if err \<noteq> None then
             (if IgnoreNotFound err \<noteq> None then (Returned err, w1)
              else
                (case generateNewEncryptionConfig P w1 of
                   (Inl err, w2) \<Rightarrow> (Returned (Some err), w2)
                 | (Inr encryptionConfigValue, w2) \<Rightarrow> store secret encryptionConfigValue w2))
           else store secret (Data_index secret encryptionConfigKey) w1))"

definition deployKubeAPIServerSecrets ::
  "package \<Rightarrow> operation \<Rightarrow> world \<Rightarrow> status \<times> world" where
  "deployKubeAPIServerSecrets P op w =
     (case deployKubeApiServerSecretAdmissionKubeconfig P op w of
        (Panicked, w1) \<Rightarrow> (Panicked, w1)
      | (Returned (Some err), w1) \<Rightarrow> (Returned (Some err), w1)
      | (Returned None, w1) \<Rightarrow>
     (case deployKubeApiServerSecretAuditWebhookConfig P op w1 of
        (Panicked, w2) \<Rightarrow> (Panicked, w2)
      | (Returned (Some err), w2) \<Rightarrow> (Returned (Some err), w2)
      | (Returned None, w2) \<Rightarrow>
     (case deployKubeApiServerSecretBasicAuth P op w2 of
        (Panicked, w3) \<Rightarrow> (Panicked, w3)
      | (Returned (Some err), w3) \<Rightarrow> (Returned (Some err), w3)
      | (Returned None, w3) \<Rightarrow>
     (case deployKubeApiServerSecretEncryptionConfig P op w3 of
        (Panicked, w4) \<Rightarrow> (Panicked, w4)
      | (Returned (Some err), w4) \<Rightarrow> (Returned (Some err), w4)
      | (Returned None, w4) \<Rightarrow> (Returned None, w4)))))"

text \<open>The loop of \<open>deleteKubeAPIServerSecrets\<close> over the names of the secrets.\<close>

fun deleteKubeAPIServerSecrets_loop :: "operation \<Rightarrow> string list \<Rightarrow> world \<Rightarrow> status \<times> world" where
  "deleteKubeAPIServerSecrets_loop op [] w = (Returned None, w)"
| "deleteKubeAPIServerSecrets_loop op (name # names) w =
     (let secret = emptySecret op name in
      case client_Delete_Secret secret w of
        (err, w1) \<Rightarrow>
          (if IgnoreNotFound err \<noteq> None then (Returned err, w1)
           else deleteKubeAPIServerSecrets_loop op names w1))"

definition deleteKubeAPIServerSecrets :: "package \<Rightarrow> operation \<Rightarrow> world \<Rightarrow> status \<times> world" where
  "deleteKubeAPIServerSecrets P op w =
     deleteKubeAPIServerSecrets_loop op
       [KubeApiServerSecretNameAdmissionKubeconfig P,
        KubeApiServerSecretNameAuditWebhookConfig,
        KubeApiServerSecretNameBasicAuth P,
        KubeApiServerSecretNameEncryptionConfig P] w"

section \<open>Deployments of the kube-apiserver (kube\_api\_server\_deployments.go)\<close>

definition KubeAPIServerDeploymentNameAPIServer :: "package \<Rightarrow> string" where
  "KubeAPIServerDeploymentNameAPIServer P = Prefix P @ ''-kube-apiserver''"

definition KubeAPIServerDeploymentNameControllerManager :: "package \<Rightarrow> string" where
  "KubeAPIServerDeploymentNameControllerManager P = Prefix P @ ''-kube-controller-manager''"

text \<open>An \<open>appsv1.Deployment\<close> with nothing but its identity, as its key.\<close>

definition emptyDeployment :: "operation \<Rightarrow> string \<Rightarrow> ObjectKey" where
  "emptyDeployment op name = (namespace op, name)"

fun deleteDeployments_loop :: "operation \<Rightarrow> string list \<Rightarrow> world \<Rightarrow> status \<times> world" where
  "deleteDeployments_loop op [] w = (Returned None, w)"
| "deleteDeployments_loop op (name # names) w =
     (let deployment = emptyDeployment op name in
      case client_Delete_Deployment deployment w of
        (err, w1) \<Rightarrow>
          (if IgnoreNotFound err \<noteq> None then (Returned err, w1)
           else deleteDeployments_loop op names w1))"

definition deleteDeployments :: "package \<Rightarrow> operation \<Rightarrow> world \<Rightarrow> status \<times> world" where
  "deleteDeployments P op w =
     deleteDeployments_loop op
       [KubeAPIServerDeploymentNameAPIServer P,
        KubeAPIServerDeploymentNameControllerManager P] w"

text \<open>The store answers the next \<open>n\<close> requests without a failure of its own.\<close>

definition no_faults :: "world \<Rightarrow> nat \<Rightarrow> bool" where
  "no_faults w n \<longleftrightarrow> (\<forall>j<n. faults w (length (calls w) + j) = None)"

text \<open>The bytes a Go program reads at \<open>Data[key]\<close> of a stored secret.\<close>

definition stored_value :: "(string \<rightharpoonup> bytes) option \<Rightarrow> string \<Rightarrow> bytes" where
  "stored_value d key = (case contents d key of None \<Rightarrow> [] | Some v \<Rightarrow> v)"

section \<open>The task graph and its executor\<close>

text \<open>
  Modelled from the spec: the flow library (\<open>flow.NewGraph\<close>, \<open>Graph.Add\<close>,
  \<open>Graph.Compile\<close>, \<open>Flow.Run\<close>, \<open>TaskFn.SkipIf\<close>), which is not part of the sources, as
  the sections 3, 4.1 and 4.2 of the spec describe it. A task has a name, a body, the names
  of the tasks it depends on, and a skip predicate.
\<close>

record Task =
  Name :: string
  Fn :: "world \<Rightarrow> error option \<times> world"
  Dependencies :: "string list"
  SkipIf :: "unit \<Rightarrow> bool"

record Graph =
  graphName :: string
  tasks :: "Task list"

datatype CompileError =
    DuplicateName string
  | UnknownDependency string string
  | Cycle "string list"

type_synonym ExecutionPlan = "Task list list"

datatype TaskOutcome = Succeeded | Skipped | Failed error | NotRun

record RunResult =
  outcomes :: "(string \<times> TaskOutcome) list"
  firstFailure :: "(string \<times> error) option"
  progress :: "(nat \<times> nat) list"

definition NewGraph :: "string \<Rightarrow> Graph" where
  "NewGraph name = \<lparr>graphName = name, tasks = []\<rparr>"

text \<open>\<open>AddTask\<close> registers a task and fails on a name the graph already has.\<close>

definition AddTask :: "Graph \<Rightarrow> Task \<Rightarrow> CompileError + Graph" where
  "AddTask g t =
     (if Name t \<in> set (map Name (tasks g)) then Inl (DuplicateName (Name t))
      else Inr (g\<lparr>tasks := tasks g @ [t]\<rparr>))"

text \<open>The declared dependencies that name no task of the graph, with the task naming them.\<close>

definition unknown_dependencies :: "Task list \<Rightarrow> (string \<times> string) list" where
  "unknown_dependencies ts =
     concat (map (\<lambda>t. map (\<lambda>d. (Name t, d))
                          (filter (\<lambda>d. d \<notin> set (map Name ts)) (Dependencies t))) ts)"

text \<open>
  A cycle among tasks that can never become ready: from a task, follow the first
  dependency that is not done until a task comes up again; the cycle is the walk from its
  first visit on. Each task left over has such a dependency, so a walk of as many steps as
  there are tasks left must repeat one.
\<close>

fun find_cycle :: "nat \<Rightarrow> Task list \<Rightarrow> string list \<Rightarrow> string list \<Rightarrow> string \<Rightarrow> string list" where
  "find_cycle 0 remaining finished path cur = dropWhile (\<lambda>n. n \<noteq> cur) path @ [cur]"
| "find_cycle (Suc fuel) remaining finished path cur =
     (if cur \<in> set path then dropWhile (\<lambda>n. n \<noteq> cur) path @ [cur]
      else
        (case find (\<lambda>t. Name t = cur) remaining of
           None \<Rightarrow> path @ [cur]
         | Some t \<Rightarrow>
             (case filter (\<lambda>d. d \<notin> set finished) (Dependencies t) of
                [] \<Rightarrow> path @ [cur]
              | d # _ \<Rightarrow> find_cycle fuel remaining finished (path @ [cur]) d)))"

text \<open>
  The levels, by repeated removal of the tasks with no dependency left: a level is made of
  the remaining tasks whose dependencies are all in earlier levels. When tasks remain and
  none is ready, they hold a cycle.
\<close>

function levels_from :: "Task list \<Rightarrow> string list \<Rightarrow> CompileError + ExecutionPlan" where
  "levels_from remaining finished =
     (if remaining = [] then Inr []
      else if filter (\<lambda>t. set (Dependencies t) \<subseteq> set finished) remaining = []
      then Inl (Cycle (find_cycle (length remaining) remaining finished []
                         (Name (hd remaining))))
      else
        (case levels_from
                (filter (\<lambda>t. \<not> set (Dependencies t) \<subseteq> set finished) remaining)
                (finished @
                 map Name (filter (\<lambda>t. set (Dependencies t) \<subseteq> set finished) remaining)) of
           Inl e \<Rightarrow> Inl e
         | Inr ls \<Rightarrow>
             Inr (filter (\<lambda>t. set (Dependencies t) \<subseteq> set finished) remaining # ls)))"
  by pat_completeness auto
termination
proof (relation "measure (\<lambda>(remaining, finished). length remaining)")
  show "wf (measure (\<lambda>(remaining, finished). length remaining))"
    by simp
next
  fix remaining :: "Task list" and finished :: "string list"
  assume "filter (\<lambda>t. set (Dependencies t) \<subseteq> set finished) remaining \<noteq> []"
  then have "0 < length (filter (\<lambda>t. set (Dependencies t) \<subseteq> set finished) remaining)"
    by simp
  moreover have
    "length (filter (\<lambda>t. set (Dependencies t) \<subseteq> set finished) remaining) +
     length (filter (\<lambda>t. \<not> set (Dependencies t) \<subseteq> set finished) remaining) = length remaining"
    by (rule sum_length_filter_compl)
  ultimately have
    "length (filter (\<lambda>t. \<not> set (Dependencies t) \<subseteq> set finished) remaining) < length remaining"
    by linarith
  then show
    "((filter (\<lambda>t. \<not> set (Dependencies t) \<subseteq> set finished) remaining,
       finished @ map Name (filter (\<lambda>t. set (Dependencies t) \<subseteq> set finished) remaining)),
      (remaining, finished)) \<in> measure (\<lambda>(remaining, finished). length remaining)"
    by simp
qed

text \<open>
  \<open>Compile\<close> checks that every dependency names a task of the graph and that the
  dependencies have no cycle, and returns the levels.
\<close>

definition Compile :: "Graph \<Rightarrow> CompileError + ExecutionPlan" where
  "Compile g =
     (case unknown_dependencies (tasks g) of
        (t, d) # _ \<Rightarrow> Inl (UnknownDependency t d)
      | [] \<Rightarrow> levels_from (tasks g) [])"

text \<open>The index of the level that holds the task of a name.\<close>

fun level_of :: "ExecutionPlan \<Rightarrow> string \<Rightarrow> nat option" where
  "level_of [] n = None"
| "level_of (l # ls) n =
     (if n \<in> set (map Name l) then Some 0 else map_option Suc (level_of ls n))"

text \<open>
  A terminal outcome is recorded once; the first failure is kept; the progress reporter is
  told the number of tasks finished so far and the total after each task that completed,
  failed or was skipped.
\<close>

definition record_outcome :: "nat \<Rightarrow> string \<Rightarrow> TaskOutcome \<Rightarrow> RunResult \<Rightarrow> RunResult" where
  "record_outcome count name outcome r =
     r\<lparr>outcomes := outcomes r @ [(name, outcome)],
       firstFailure :=
         (case firstFailure r of
            Some f \<Rightarrow> Some f
          | None \<Rightarrow> (case outcome of Failed e \<Rightarrow> Some (name, e) | _ \<Rightarrow> None)),
       progress := progress r @ [(Suc (length (progress r)), count)]\<rparr>"

definition record_NotRun :: "Task list \<Rightarrow> RunResult \<Rightarrow> RunResult" where
  "record_NotRun ts r = r\<lparr>outcomes := outcomes r @ map (\<lambda>t. (Name t, NotRun)) ts\<rparr>"

text \<open>
  The tasks of one level, here one after the other in the order of the level. The skip
  predicate is evaluated first: a skipped task is recorded as \<open>Skipped\<close> and its body is not
  invoked. A failure does not stop the other tasks of the level.
\<close>

fun run_level :: "nat \<Rightarrow> Task list \<Rightarrow> RunResult \<times> world \<Rightarrow> RunResult \<times> world" where
  "run_level count [] (r, w) = (r, w)"
| "run_level count (t # ts) (r, w) =
     (if SkipIf t () then run_level count ts (record_outcome count (Name t) Skipped r, w)
      else
        (case Fn t w of
           (None, w') \<Rightarrow> run_level count ts (record_outcome count (Name t) Succeeded r, w')
         | (Some e, w') \<Rightarrow> run_level count ts (record_outcome count (Name t) (Failed e) r, w')))"

text \<open>Level by level; after a failure no further level is admitted and its tasks are not run.\<close>

fun run_levels :: "nat \<Rightarrow> ExecutionPlan \<Rightarrow> RunResult \<times> world \<Rightarrow> RunResult \<times> world" where
  "run_levels count [] (r, w) = (r, w)"
| "run_levels count (l # ls) (r, w) =
     (if firstFailure r \<noteq> None then (record_NotRun (concat (l # ls)) r, w)
      else run_levels count ls (run_level count l (r, w)))"

definition Run :: "ExecutionPlan \<Rightarrow> world \<Rightarrow> RunResult \<times> world" where
  "Run plan w =
     run_levels (length (concat plan)) plan
       (\<lparr>outcomes = [], firstFailure = None, progress = []\<rparr>, w)"

section \<open>The deletion workflow (operation\_delete.go)\<close>

text \<open>
  The bodies of the four tasks are methods of the operation that the sources at hand do
  not hold; they are taken as parameters.
\<close>

record delete_steps =
  DeleteKubeAPIServerService :: "world \<Rightarrow> error option \<times> world"
  DeleteETCD :: "world \<Rightarrow> error option \<times> world"
  DeleteBackupBucket :: "world \<Rightarrow> error option \<times> world"
  DeleteNamespace :: "world \<Rightarrow> error option \<times> world"

text \<open>
  Modelled from the spec: \<open>TaskFn.SkipIf\<close> of the flow library, which is not part of the
  sources. Section 4.2 has the body of a skipped task not invoked; \<open>Delete\<close> applies
  \<open>SkipIf\<close> to the task function, so it is a wrapper: the function it returns does nothing
  and returns nil when the condition holds, and calls the wrapped function otherwise.
\<close>

definition TaskFn_SkipIf ::
  "(world \<Rightarrow> error option \<times> world) \<Rightarrow> bool \<Rightarrow> (world \<Rightarrow> error option \<times> world)" where
  "TaskFn_SkipIf fn condition = (\<lambda>w. if condition then (None, w) else fn w)"

text \<open>
  The graph that \<open>Delete\<close> builds, task by task. The task literals of the source give a
  name, a function and dependencies, and no skip predicate: the predicate of each task is
  the default, false. The skip of the namespace task is inside its function.
\<close>

definition deletion_graph :: "delete_steps \<Rightarrow> operation \<Rightarrow> CompileError + Graph" where
  "deletion_graph S op =
     (let graph = NewGraph ''Virtual Garden Deletion'';
          deleteKubeAPIServerService =
            ''Deleting the service for exposing the virtual garden kube-apiserver'';
          deleteETCD = ''Deleting the main and events etcds'';
          deleteBackupBucket = ''Deleting the backup bucket for the main etcd''
      in
      case AddTask graph
             \<lparr>Name = deleteKubeAPIServerService,
              Fn = DeleteKubeAPIServerService S,
              Dependencies = [],
              SkipIf = (\<lambda>_. False)\<rparr> of
        Inl e \<Rightarrow> Inl e
      | Inr graph \<Rightarrow>
     (case AddTask graph
             \<lparr>Name = deleteETCD,
              Fn = DeleteETCD S,
              Dependencies = [],
              SkipIf = (\<lambda>_. False)\<rparr> of
        Inl e \<Rightarrow> Inl e
      | Inr graph \<Rightarrow>
     (case AddTask graph
             \<lparr>Name = deleteBackupBucket,
              Fn = DeleteBackupBucket S,
              Dependencies = [deleteETCD],
              SkipIf = (\<lambda>_. False)\<rparr> of
        Inl e \<Rightarrow> Inl e
      | Inr graph \<Rightarrow>
        AddTask graph
             \<lparr>Name = ''Deleting namespace for virtual-garden deployment in hosting cluster'',
              Fn = TaskFn_SkipIf (DeleteNamespace S) (\<not> handleNamespace op),
              Dependencies = [deleteKubeAPIServerService, deleteETCD, deleteBackupBucket],
              SkipIf = (\<lambda>_. False)\<rparr>)))"

definition Delete ::
  "delete_steps \<Rightarrow> operation \<Rightarrow> world \<Rightarrow> (CompileError + RunResult) \<times> world" where
  "Delete S op w =
     (case deletion_graph S op of
        Inl e \<Rightarrow> (Inl e, w)
      | Inr graph \<Rightarrow>
          (case Compile graph of
             Inl e \<Rightarrow> (Inl e, w)
           | Inr plan \<Rightarrow> (case Run plan w of (r, w') \<Rightarrow> (Inr r, w'))))"

section \<open>Example inputs\<close>

definition example_package :: package where
  "example_package =
     \<lparr>Prefix = ''virtual-garden'',
      validatingWebhookKubeconfig = ''validating'',
      mutatingWebhookKubeconfig = ''mutating'',
      EncodeBase64 = (\<lambda>bs. bs),
      yaml_Marshal = (\<lambda>c. Inr ''resources: []'')\<rparr>"

definition example_operation :: operation where
  "example_operation =
     \<lparr>namespace = ''garden'',
      handleNamespace = False,
      imports = \<lparr>VirtualGarden = \<lparr>KubeAPIServer = Some
        \<lparr>GardenerControlplane =
           \<lparr>ValidatingWebhookEnabled = False, MutatingWebhookEnabled = False\<rparr>,
         AuditWebhookConfig = \<lparr>Config = ''''\<rparr>\<rparr>\<rparr>\<rparr>\<rparr>"

definition example_world :: world where
  "example_world =
     \<lparr>secrets = Map.empty,
      deployments = {},
      calls = [],
      faults = (\<lambda>i. None),
      random = (\<lambda>i n. Inr (replicate n (CHR ''x''))),
      random_reads = 0\<rparr>"

definition example_steps :: delete_steps where
  "example_steps =
     \<lparr>DeleteKubeAPIServerService = (\<lambda>w. (None, w)),
      DeleteETCD = (\<lambda>w. (None, w)),
      DeleteBackupBucket = (\<lambda>w. (None, w)),
      DeleteNamespace = (\<lambda>w. (None, w\<lparr>secrets := Map.empty, deployments := {}\<rparr>))\<rparr>"

definition example_checksum_keys :: checksum_keys where
  "example_checksum_keys =
     \<lparr>ChecksumKeyKubeAPIServerAuditPolicyConfig = ''checksum/audit-policy'',
      ChecksumKeyKubeAPIServerEncryptionConfig = ''checksum/encryption-config'',
      ChecksumKeyKubeAggregatorCA = ''checksum/aggregator-ca'',
      ChecksumKeyKubeAggregatorClient = ''checksum/aggregator-client'',
      ChecksumKeyKubeAPIServerCA = ''checksum/apiserver-ca'',
      ChecksumKeyKubeAPIServerServer = ''checksum/apiserver-server'',
      ChecksumKeyKubeAPIServerAuditWebhookConfig = ''checksum/audit-webhook'',
      ChecksumKeyKubeAPIServerAuthWebhookConfig = ''checksum/auth-webhook'',
      ChecksumKeyKubeAPIServerOidcAuthenticationWebhookConfig = ''checksum/oidc-webhook'',
      ChecksumKeyKubeAPIServerStaticToken = ''checksum/static-token'',
      ChecksumKeyKubeAPIServerAdmissionConfig = ''checksum/admission-config''\<rparr>"

section \<open>Properties of the checksum projection\<close>

lemma map_index_other:
  "m \<noteq> MapAt a \<Longrightarrow> map_index (h[a := g]) m key = map_index h m key"
  by (cases m) (auto simp: map_index_def)

lemma addChecksumsToAnnotations_loop_result:
  assumes "a < length h" and "checksums \<noteq> MapAt a"
  shows "addChecksumsToAnnotations_loop h checksums keys (MapAt a) =
           Some (h[a := (h ! a) ++ (deref h checksums |` set keys)])"
  using assms
proof (induction keys arbitrary: h)
  case Nil
  then show ?case by simp
next
  case (Cons key keys)
  show ?case
  proof (cases "map_index h checksums key")
    case None
    then have "deref h checksums |` set (key # keys) = deref h checksums |` set keys"
      by (auto simp: restrict_map_def deref_def fun_eq_iff)
    with None Cons show ?thesis by simp
  next
    case (Some v)
    let ?h = "h[a := (h ! a)(key \<mapsto> v)]"
    have same: "deref ?h checksums = deref h checksums"
      using Cons.prems(2) by (simp add: deref_def map_index_other)
    have len: "a < length ?h" using Cons.prems(1) by simp
    have upd: "(?h ! a) ++ (deref h checksums |` set keys) =
          (h ! a) ++ (deref h checksums |` set (key # keys))"
      using Some Cons.prems(1)
      by (auto simp: fun_eq_iff map_add_def restrict_map_def deref_def split: option.splits)
    have "addChecksumsToAnnotations_loop h checksums (key # keys) (MapAt a) =
          addChecksumsToAnnotations_loop ?h checksums keys (MapAt a)"
      using Some Cons.prems(1) by (simp add: map_assign_def)
    also have "\<dots> = Some (?h[a := (?h ! a) ++ (deref ?h checksums |` set keys)])"
      by (rule Cons.IH [OF len Cons.prems(2)])
    also have "\<dots> = Some (h[a := (h ! a) ++ (deref h checksums |` set (key # keys))])"
      unfolding same upd by simp
    finally show ?thesis .
  qed
qed

lemma addChecksumsToAnnotations_result:
  assumes "valid_ref h checksums"
  shows "addChecksumsToAnnotations h checksums keys =
           Some (h @ [deref h checksums |` set keys], MapAt (length h))"
proof -
  have ne: "checksums \<noteq> MapAt (length h)"
    using assms by (auto simp: valid_ref_def)
  have d: "deref (h @ [Map.empty]) checksums = deref h checksums"
    using assms
    by (cases checksums) (auto simp: deref_def map_index_def valid_ref_def nth_append fun_eq_iff)
  have "addChecksumsToAnnotations_loop (h @ [Map.empty]) checksums keys (MapAt (length h)) =
          Some ((h @ [Map.empty])[length h := ((h @ [Map.empty]) ! length h) ++
                  (deref (h @ [Map.empty]) checksums |` set keys)])"
    by (rule addChecksumsToAnnotations_loop_result) (use ne in simp_all)
  then show ?thesis
    by (simp add: addChecksumsToAnnotations_def make_map_def d)
qed

text \<open>
  Claim C3. For every checksum mapping and every list of selected keys,
  \<open>addChecksumsToAnnotations\<close> returns a mapping whose entries are exactly the selected
  keys that the checksum mapping holds, each with its checksum unchanged: a selected key
  missing from the checksums gives no entry, and a key that is not selected never
  appears. \<open>computeApiServerAnnotations\<close> is this projection at the fixed list of the
  eleven watched checksum keys: the audit policy config, the encryption config, the
  aggregator CA and client, the API server CA and server, the audit, auth and OIDC
  authentication webhook configs, the static token and the admission config. Its result
  holds a key exactly when the key is one of these eleven and the checksums hold it.
\<close>

theorem addChecksumsToAnnotations_projection:
  assumes "valid_ref h checksums"
  shows "(\<exists>h' annotations.
            addChecksumsToAnnotations h checksums keys = Some (h', annotations) \<and>
            (\<forall>key. map_index h' annotations key =
               (if key \<in> set keys then map_index h checksums key else None))) \<and>
         computeApiServerAnnotations K h checksums =
           addChecksumsToAnnotations h checksums (apiServerChecksumKeys K) \<and>
         length (apiServerChecksumKeys K) = 11 \<and>
         computeApiServerAnnotations K h checksums =
           addChecksumsToAnnotations h checksums
             [ChecksumKeyKubeAPIServerAuditPolicyConfig K,
              ChecksumKeyKubeAPIServerEncryptionConfig K,
              ChecksumKeyKubeAggregatorCA K,
              ChecksumKeyKubeAggregatorClient K,
              ChecksumKeyKubeAPIServerCA K,
              ChecksumKeyKubeAPIServerServer K,
              ChecksumKeyKubeAPIServerAuditWebhookConfig K,
              ChecksumKeyKubeAPIServerAuthWebhookConfig K,
              ChecksumKeyKubeAPIServerOidcAuthenticationWebhookConfig K,
              ChecksumKeyKubeAPIServerStaticToken K,
              ChecksumKeyKubeAPIServerAdmissionConfig K] \<and>
         (\<exists>h' annotations.
            computeApiServerAnnotations K h checksums = Some (h', annotations) \<and>
            (\<forall>key. map_index h' annotations key =
               (if key \<in>
                  {ChecksumKeyKubeAPIServerAuditPolicyConfig K,
                   ChecksumKeyKubeAPIServerEncryptionConfig K,
                   ChecksumKeyKubeAggregatorCA K,
                   ChecksumKeyKubeAggregatorClient K,
                   ChecksumKeyKubeAPIServerCA K,
                   ChecksumKeyKubeAPIServerServer K,
                   ChecksumKeyKubeAPIServerAuditWebhookConfig K,
                   ChecksumKeyKubeAPIServerAuthWebhookConfig K,
                   ChecksumKeyKubeAPIServerOidcAuthenticationWebhookConfig K,
                   ChecksumKeyKubeAPIServerStaticToken K,
                   ChecksumKeyKubeAPIServerAdmissionConfig K}
                then map_index h checksums key else None)))"
proof -
  have p: "map_index (h @ [deref h checksums |` set ks]) (MapAt (length h)) key =
          (if key \<in> set ks then map_index h checksums key else None)" for key ks
    by (simp add: map_index_def deref_def restrict_map_def)
  have s: "set (apiServerChecksumKeys K) =
      {ChecksumKeyKubeAPIServerAuditPolicyConfig K,
       ChecksumKeyKubeAPIServerEncryptionConfig K,
       ChecksumKeyKubeAggregatorCA K,
       ChecksumKeyKubeAggregatorClient K,
       ChecksumKeyKubeAPIServerCA K,
       ChecksumKeyKubeAPIServerServer K,
       ChecksumKeyKubeAPIServerAuditWebhookConfig K,
       ChecksumKeyKubeAPIServerAuthWebhookConfig K,
       ChecksumKeyKubeAPIServerOidcAuthenticationWebhookConfig K,
       ChecksumKeyKubeAPIServerStaticToken K,
       ChecksumKeyKubeAPIServerAdmissionConfig K}"
    by (simp add: apiServerChecksumKeys_def)
  have c: "\<exists>h' annotations.
            computeApiServerAnnotations K h checksums = Some (h', annotations) \<and>
            (\<forall>key. map_index h' annotations key =
               (if key \<in> set (apiServerChecksumKeys K)
                then map_index h checksums key else None))"
    unfolding computeApiServerAnnotations_def
    using addChecksumsToAnnotations_result [OF assms, of "apiServerChecksumKeys K"] p
    by simp
  have a: "\<exists>h' annotations.
            addChecksumsToAnnotations h checksums keys = Some (h', annotations) \<and>
            (\<forall>key. map_index h' annotations key =
               (if key \<in> set keys then map_index h checksums key else None))"
    using addChecksumsToAnnotations_result [OF assms, of keys] p by simp
  have d: "computeApiServerAnnotations K h checksums =
           addChecksumsToAnnotations h checksums (apiServerChecksumKeys K)"
    by (simp add: computeApiServerAnnotations_def)
  have l: "length (apiServerChecksumKeys K) = 11"
    by (simp add: apiServerChecksumKeys_def)
  from a d l d [unfolded apiServerChecksumKeys_def] c [unfolded s] show ?thesis
    by (intro conjI)
qed

theorem addChecksumsToAnnotations_projection_witness:
  "valid_ref [[''ca'' \<mapsto> ''11'', ''server'' \<mapsto> ''22'']] (MapAt 0) \<and>
   (\<exists>h' annotations.
      addChecksumsToAnnotations [[''ca'' \<mapsto> ''11'', ''server'' \<mapsto> ''22'']] (MapAt 0)
        [''ca'', ''token''] = Some (h', annotations) \<and>
      map_index h' annotations ''ca'' = Some ''11'' \<and>
      map_index h' annotations ''token'' = None \<and>
      map_index h' annotations ''server'' = None) \<and>
   valid_ref [[''checksum/static-token'' \<mapsto> ''33'', ''checksum/etcd'' \<mapsto> ''44'']] (MapAt 0) \<and>
   (\<exists>h' annotations.
      computeApiServerAnnotations example_checksum_keys
        [[''checksum/static-token'' \<mapsto> ''33'', ''checksum/etcd'' \<mapsto> ''44'']] (MapAt 0) =
        Some (h', annotations) \<and>
      map_index h' annotations ''checksum/static-token'' = Some ''33'' \<and>
      map_index h' annotations ''checksum/etcd'' = None \<and>
      map_index h' annotations ''checksum/apiserver-ca'' = None)"
proof -
  let ?h = "[[''ca'' \<mapsto> ''11'', ''server'' \<mapsto> ''22'']]"
  let ?g = "[[''checksum/static-token'' \<mapsto> ''33'', ''checksum/etcd'' \<mapsto> ''44'']]"
  have v: "valid_ref ?h (MapAt 0)" and vg: "valid_ref ?g (MapAt 0)"
    by (simp_all add: valid_ref_def)
  from addChecksumsToAnnotations_projection [OF v, of "[''ca'', ''token'']"]
  obtain h' annotations where
    r: "addChecksumsToAnnotations ?h (MapAt 0) [''ca'', ''token''] = Some (h', annotations)"
    and p: "\<And>key. map_index h' annotations key =
               (if key \<in> set [''ca'', ''token''] then map_index ?h (MapAt 0) key else None)"
    by blast
  have "map_index h' annotations ''ca'' = Some ''11''"
    and "map_index h' annotations ''token'' = None"
    and "map_index h' annotations ''server'' = None"
    unfolding p by (simp_all add: map_index_def)
  with r have first: "\<exists>h' annotations.
      addChecksumsToAnnotations ?h (MapAt 0) [''ca'', ''token''] = Some (h', annotations) \<and>
      map_index h' annotations ''ca'' = Some ''11'' \<and>
      map_index h' annotations ''token'' = None \<and>
      map_index h' annotations ''server'' = None"
    by blast
  from addChecksumsToAnnotations_projection [OF vg, where K = example_checksum_keys]
  obtain g' ann where
    rg: "computeApiServerAnnotations example_checksum_keys ?g (MapAt 0) = Some (g', ann)"
    and pg: "\<And>key. map_index g' ann key =
               (if key \<in>
                  {ChecksumKeyKubeAPIServerAuditPolicyConfig example_checksum_keys,
                   ChecksumKeyKubeAPIServerEncryptionConfig example_checksum_keys,
                   ChecksumKeyKubeAggregatorCA example_checksum_keys,
                   ChecksumKeyKubeAggregatorClient example_checksum_keys,
                   ChecksumKeyKubeAPIServerCA example_checksum_keys,
                   ChecksumKeyKubeAPIServerServer example_checksum_keys,
                   ChecksumKeyKubeAPIServerAuditWebhookConfig example_checksum_keys,
                   ChecksumKeyKubeAPIServerAuthWebhookConfig example_checksum_keys,
                   ChecksumKeyKubeAPIServerOidcAuthenticationWebhookConfig example_checksum_keys,
                   ChecksumKeyKubeAPIServerStaticToken example_checksum_keys,
                   ChecksumKeyKubeAPIServerAdmissionConfig example_checksum_keys}
                then map_index ?g (MapAt 0) key else None)"
    by blast
  have "map_index g' ann ''checksum/static-token'' = Some ''33''"
    and "map_index g' ann ''checksum/etcd'' = None"
    and "map_index g' ann ''checksum/apiserver-ca'' = None"
    unfolding pg by (simp_all add: map_index_def example_checksum_keys_def)
  with rg have second: "\<exists>h' annotations.
      computeApiServerAnnotations example_checksum_keys ?g (MapAt 0) = Some (h', annotations) \<and>
      map_index h' annotations ''checksum/static-token'' = Some ''33'' \<and>
      map_index h' annotations ''checksum/etcd'' = None \<and>
      map_index h' annotations ''checksum/apiserver-ca'' = None"
    by blast
  from v first vg second show ?thesis by (intro conjI)
qed

text \<open>
  Claim C10. \<open>addChecksumsToAnnotations\<close> only reads its checksum mapping: every map that
  existed before the call, the checksum mapping among them, has the same contents after
  it. The result is never nil: it is a map allocated by the call, at an address that no
  map had before, also when the checksum mapping is nil or empty or holds none of the
  selected keys, and then the result is the empty map.
\<close>

theorem addChecksumsToAnnotations_frame:
  assumes "valid_ref h checksums"
  shows "\<exists>h' a.
           addChecksumsToAnnotations h checksums keys = Some (h', MapAt a) \<and>
           \<not> a < length h \<and> a < length h' \<and>
           take (length h) h' = h \<and>
           deref h' checksums = deref h checksums \<and>
           ((\<forall>key \<in> set keys. map_index h checksums key = None) \<longrightarrow> h' ! a = Map.empty)"
proof -
  let ?r = "deref h checksums |` set keys"
  have d: "deref (h @ [?r]) checksums = deref h checksums"
    using assms
    by (cases checksums) (auto simp: deref_def map_index_def valid_ref_def nth_append fun_eq_iff)
  have e: "?r = Map.empty" if "\<forall>key \<in> set keys. map_index h checksums key = None"
    using that by (auto simp: restrict_map_def deref_def fun_eq_iff)
  show ?thesis
    using addChecksumsToAnnotations_result [OF assms, of keys] d e by simp
qed

theorem addChecksumsToAnnotations_frame_witness:
  "valid_ref [[''ca'' \<mapsto> ''11'']] NilMap \<and>
   (\<exists>h' a.
      addChecksumsToAnnotations [[''ca'' \<mapsto> ''11'']] NilMap [''ca''] = Some (h', MapAt a) \<and>
      a = 1 \<and> length h' = 2 \<and> h' ! 0 = [''ca'' \<mapsto> ''11''] \<and> h' ! a = Map.empty)"
proof -
  let ?h = "[[''ca'' \<mapsto> ''11'']]"
  have v: "valid_ref ?h NilMap"
    by (simp add: valid_ref_def)
  have n: "\<forall>key \<in> set [''ca'']. map_index ?h NilMap key = None"
    by (simp add: map_index_def)
  from addChecksumsToAnnotations_frame [OF v, of "[''ca'']"] n
  obtain h' a where
    r: "addChecksumsToAnnotations ?h NilMap [''ca''] = Some (h', MapAt a)"
    and e: "h' ! a = Map.empty"
    by blast
  from r have "h' = ?h @ [Map.empty]" and "a = 1"
    by (simp_all add: addChecksumsToAnnotations_def make_map_def map_index_def)
  with v r e show ?thesis by simp
qed

section \<open>Properties of the secrets\<close>

lemmas client_defs = client_Get_def client_Create_def client_Update_def GetKey_def

lemmas secret_defs = IgnoreNotFound_def Let_def emptySecret_def CreateOrUpdate_def
  Data_assign_def data_of_def Data_index_def DeepEqual_def

lemma contents_simps [simp]: "contents None = Map.empty" "contents (Some m) = m"
  by (simp_all add: contents_def)

lemma no_faults_3:
  "no_faults w 3 \<Longrightarrow> faults w (length (calls w)) = None \<and>
     faults w (Suc (length (calls w))) = None \<and> faults w (Suc (Suc (length (calls w)))) = None"
  unfolding no_faults_def
  by (metis add.right_neutral add_Suc_right numeral_3_eq_3 zero_less_Suc Suc_less_eq)

lemma no_faults_2:
  "no_faults w 2 \<Longrightarrow> faults w (length (calls w)) = None \<and>
     faults w (Suc (length (calls w))) = None"
  unfolding no_faults_def
  by (metis add.right_neutral add_Suc_right numeral_2_eq_2 zero_less_Suc Suc_less_eq)

lemma basic_present:
  assumes "secrets w (namespace op, KubeApiServerSecretNameBasicAuth P) = Some d"
  shows "\<exists>d'. secrets (snd (deployKubeApiServerSecretBasicAuth P op w))
                 (namespace op, KubeApiServerSecretNameBasicAuth P) = Some d' \<and>
              (d' = d \<or> contents d ''basic_auth.csv'' = None \<and>
                 d' = Some ((contents d)(''basic_auth.csv'' \<mapsto> []))) \<and>
         random_reads (snd (deployKubeApiServerSecretBasicAuth P op w)) = random_reads w"
  using assms
  by (auto simp: deployKubeApiServerSecretBasicAuth_def client_defs secret_defs
      split: option.splits prod.splits if_splits)

lemma basic_fault:
  "faults w (length (calls w)) = Some msg \<Longrightarrow>
   deployKubeApiServerSecretBasicAuth P op w =
     (Returned (Some (StoreError msg)),
      w\<lparr>calls := calls w @ [GetSecret (namespace op, KubeApiServerSecretNameBasicAuth P)]\<rparr>)"
  by (simp add: deployKubeApiServerSecretBasicAuth_def client_defs secret_defs)

lemma basic_created:
  assumes "secrets w (namespace op, KubeApiServerSecretNameBasicAuth P) = None"
    and "no_faults w 3" and "random w (random_reads w) 32 = Inr pw"
  shows "deployKubeApiServerSecretBasicAuth P op w =
     (Returned None,
      w\<lparr>secrets := (secrets w)((namespace op, KubeApiServerSecretNameBasicAuth P) \<mapsto>
            Some [''basic_auth.csv'' \<mapsto> pw @ '',admin,admin,system:masters'']),
        calls := calls w @ [GetSecret (namespace op, KubeApiServerSecretNameBasicAuth P),
                            GetSecret (namespace op, KubeApiServerSecretNameBasicAuth P),
                            CreateSecret (namespace op, KubeApiServerSecretNameBasicAuth P)],
        random_reads := Suc (random_reads w)\<rparr>)"
  using assms(1,3) no_faults_3 [OF assms(2)]
  by (simp add: deployKubeApiServerSecretBasicAuth_def client_defs secret_defs
      GenerateRandomString_def)

lemma basic_kept:
  assumes "secrets w (namespace op, KubeApiServerSecretNameBasicAuth P) = Some d"
    and "contents d ''basic_auth.csv'' = Some v" and "no_faults w 2"
  shows "deployKubeApiServerSecretBasicAuth P op w =
     (Returned None,
      w\<lparr>calls := calls w @ [GetSecret (namespace op, KubeApiServerSecretNameBasicAuth P),
                            GetSecret (namespace op, KubeApiServerSecretNameBasicAuth P)]\<rparr>)"
  using assms(1,2) no_faults_2 [OF assms(3)]
  by (auto simp: deployKubeApiServerSecretBasicAuth_def client_defs secret_defs
      split: option.splits)

lemma basic_absent_reads:
  assumes "secrets w (namespace op, KubeApiServerSecretNameBasicAuth P) = None"
    and "faults w (length (calls w)) = None"
  shows "random_reads (snd (deployKubeApiServerSecretBasicAuth P op w)) = Suc (random_reads w)"
  using assms
  by (auto simp: deployKubeApiServerSecretBasicAuth_def client_defs secret_defs
      GenerateRandomString_def split: option.splits prod.splits sum.splits)

lemma basic_never_NotFound:
  "fst (deployKubeApiServerSecretBasicAuth P op w) \<noteq> Returned (Some NotFound)"
  by (auto simp: deployKubeApiServerSecretBasicAuth_def client_defs secret_defs
      GenerateRandomString_def split: option.splits prod.splits sum.splits if_splits)

lemmas enc_defs = deployKubeApiServerSecretEncryptionConfig_def generateNewEncryptionConfig_def
  cryptorand_Read_def

lemma enc_present:
  assumes "secrets w (namespace op, KubeApiServerSecretNameEncryptionConfig P) = Some d"
  shows "\<exists>d'. secrets (snd (deployKubeApiServerSecretEncryptionConfig P op w))
                 (namespace op, KubeApiServerSecretNameEncryptionConfig P) = Some d' \<and>
              (d' = d \<or> contents d ''encryption-config.yaml'' = None \<and>
                 d' = Some ((contents d)(''encryption-config.yaml'' \<mapsto> []))) \<and>
         random_reads (snd (deployKubeApiServerSecretEncryptionConfig P op w)) = random_reads w"
  using assms
  by (auto simp: enc_defs client_defs secret_defs
      split: option.splits prod.splits if_splits)

lemma enc_fault:
  "faults w (length (calls w)) = Some msg \<Longrightarrow>
   deployKubeApiServerSecretEncryptionConfig P op w =
     (Returned (Some (StoreError msg)),
      w\<lparr>calls := calls w @ [GetSecret (namespace op, KubeApiServerSecretNameEncryptionConfig P)]\<rparr>)"
  by (simp add: enc_defs client_defs secret_defs)

lemma enc_created:
  assumes "secrets w (namespace op, KubeApiServerSecretNameEncryptionConfig P) = None"
    and "no_faults w 3" and "random w (random_reads w) 32 = Inr secretBytes"
    and "yaml_Marshal P (EncryptionConfiguration
           [ResourceConfiguration [''secrets'']
              [AESCBC [Key ''key'' (EncodeBase64 P secretBytes)], Identity]]) = Inr out"
  shows "deployKubeApiServerSecretEncryptionConfig P op w =
     (Returned None,
      w\<lparr>secrets := (secrets w)((namespace op, KubeApiServerSecretNameEncryptionConfig P) \<mapsto>
            Some [''encryption-config.yaml'' \<mapsto> out]),
        calls := calls w @ [GetSecret (namespace op, KubeApiServerSecretNameEncryptionConfig P),
                            GetSecret (namespace op, KubeApiServerSecretNameEncryptionConfig P),
                            CreateSecret (namespace op, KubeApiServerSecretNameEncryptionConfig P)],
        random_reads := Suc (random_reads w)\<rparr>)"
  using assms(1,3,4) no_faults_3 [OF assms(2)]
  by (simp add: enc_defs client_defs secret_defs)

lemma enc_kept:
  assumes "secrets w (namespace op, KubeApiServerSecretNameEncryptionConfig P) = Some d"
    and "contents d ''encryption-config.yaml'' = Some v" and "no_faults w 2"
  shows "deployKubeApiServerSecretEncryptionConfig P op w =
     (Returned None,
      w\<lparr>calls := calls w @ [GetSecret (namespace op, KubeApiServerSecretNameEncryptionConfig P),
                            GetSecret (namespace op, KubeApiServerSecretNameEncryptionConfig P)]\<rparr>)"
  using assms(1,2) no_faults_2 [OF assms(3)]
  by (auto simp: enc_defs client_defs secret_defs split: option.splits)

lemma enc_absent_reads:
  assumes "secrets w (namespace op, KubeApiServerSecretNameEncryptionConfig P) = None"
    and "faults w (length (calls w)) = None"
  shows "random_reads (snd (deployKubeApiServerSecretEncryptionConfig P op w)) =
           Suc (random_reads w)"
  using assms
  by (auto simp: enc_defs client_defs secret_defs
      split: option.splits prod.splits sum.splits)

lemma enc_never_NotFound:
  "fst (deployKubeApiServerSecretEncryptionConfig P op w) \<noteq> Returned (Some NotFound)"
  by (auto simp: enc_defs client_defs secret_defs
      split: option.splits prod.splits sum.splits if_splits)

lemma basic_present_success:
  assumes "secrets w (namespace op, KubeApiServerSecretNameBasicAuth P) = Some d"
    and "no_faults w 3"
  shows "fst (deployKubeApiServerSecretBasicAuth P op w) = Returned None"
  using assms(1) no_faults_3 [OF assms(2)]
  by (auto simp: deployKubeApiServerSecretBasicAuth_def client_defs secret_defs
      split: option.splits prod.splits if_splits)

lemma basic_absent_success:
  assumes "secrets w (namespace op, KubeApiServerSecretNameBasicAuth P) = None"
    and "fst (deployKubeApiServerSecretBasicAuth P op w) = Returned None"
  shows "\<exists>pw. random w (random_reads w) 32 = Inr pw \<and>
           secrets (snd (deployKubeApiServerSecretBasicAuth P op w))
             (namespace op, KubeApiServerSecretNameBasicAuth P) =
           Some (Some [''basic_auth.csv'' \<mapsto> pw @ '',admin,admin,system:masters''])"
  using assms
  by (auto simp: deployKubeApiServerSecretBasicAuth_def client_defs secret_defs
      GenerateRandomString_def split: option.splits prod.splits sum.splits if_splits)

lemma example_keys:
  "namespace example_operation = ''garden''"
  "KubeApiServerSecretNameBasicAuth example_package = ''virtual-garden-kube-apiserver-basic-auth''"
  "KubeApiServerSecretNameEncryptionConfig example_package =
     ''virtual-garden-kube-apiserver-encryption-config''"
  "KubeApiServerSecretNameAdmissionKubeconfig example_package =
     ''virtual-garden-kube-apiserver-admission-kubeconfig''"
  by (simp_all add: example_operation_def example_package_def
      KubeApiServerSecretNameBasicAuth_def KubeApiServerSecretNameEncryptionConfig_def
      KubeApiServerSecretNameAdmissionKubeconfig_def)

text \<open>
  Claim C1. Whatever the store holds before: when the secret named by
  \<open>KubeApiServerSecretNameBasicAuth\<close> exists, \<open>deployKubeApiServerSecretBasicAuth\<close> reads
  no randomness and leaves the value of \<open>basic_auth.csv\<close> as it was (and succeeds when the
  store answers its requests); a password is generated only when the secret is absent.
  Called twice from an absent secret, the second call leaves the value the first one
  wrote unchanged.
\<close>

theorem deployKubeApiServerSecretBasicAuth_generate_once:
  assumes "deployKubeApiServerSecretBasicAuth P op w = (r1, w1)"
    and "deployKubeApiServerSecretBasicAuth P op w1 = (r2, w2)"
    and "key = (namespace op, KubeApiServerSecretNameBasicAuth P)"
  shows "(\<forall>d. secrets w key = Some d \<longrightarrow>
            random_reads w1 = random_reads w \<and>
            (\<exists>d'. secrets w1 key = Some d' \<and>
                   stored_value d' ''basic_auth.csv'' = stored_value d ''basic_auth.csv'' \<and>
                   (contents d ''basic_auth.csv'' \<noteq> None \<longrightarrow> d' = d)) \<and>
            (no_faults w 3 \<longrightarrow> r1 = Returned None)) \<and>
         (random_reads w1 \<noteq> random_reads w \<longrightarrow> secrets w key = None) \<and>
         (secrets w key = None \<and> r1 = Returned None \<longrightarrow>
            (\<exists>pw. random w (random_reads w) 32 = Inr pw \<and>
               secrets w1 key =
                 Some (Some [''basic_auth.csv'' \<mapsto> pw @ '',admin,admin,system:masters''])) \<and>
            random_reads w1 = Suc (random_reads w) \<and>
            secrets w2 key = secrets w1 key \<and> random_reads w2 = random_reads w1)"
proof -
  have w1: "w1 = snd (deployKubeApiServerSecretBasicAuth P op w)"
    and r1: "r1 = fst (deployKubeApiServerSecretBasicAuth P op w)"
    and w2: "w2 = snd (deployKubeApiServerSecretBasicAuth P op w1)"
    using assms(1,2) by simp_all
  have present: "random_reads w1 = random_reads w \<and>
            (\<exists>d'. secrets w1 key = Some d' \<and>
                   stored_value d' ''basic_auth.csv'' = stored_value d ''basic_auth.csv'' \<and>
                   (contents d ''basic_auth.csv'' \<noteq> None \<longrightarrow> d' = d)) \<and>
            (no_faults w 3 \<longrightarrow> r1 = Returned None)"
    if "secrets w key = Some d" for d
    using basic_present [of w op P d] basic_present_success [of w op P d] that
    unfolding w1 r1 assms(3) by (auto simp: stored_value_def)
  have gen: "secrets w key = None" if "random_reads w1 \<noteq> random_reads w"
  proof (cases "secrets w key")
    case None
    then show ?thesis .
  next
    case (Some d)
    with present that show ?thesis by blast
  qed
  have twice: "(\<exists>pw. random w (random_reads w) 32 = Inr pw \<and>
               secrets w1 key =
                 Some (Some [''basic_auth.csv'' \<mapsto> pw @ '',admin,admin,system:masters''])) \<and>
            random_reads w1 = Suc (random_reads w) \<and>
            secrets w2 key = secrets w1 key \<and> random_reads w2 = random_reads w1"
    if a: "secrets w key = None" and s: "r1 = Returned None"
  proof -
    from basic_absent_success [of w op P] a s
    obtain pw where pw: "random w (random_reads w) 32 = Inr pw"
      and st: "secrets w1 key =
                 Some (Some [''basic_auth.csv'' \<mapsto> pw @ '',admin,admin,system:masters''])"
      unfolding w1 r1 assms(3) by blast
    have "faults w (length (calls w)) = None"
    proof (cases "faults w (length (calls w))")
      case None
      then show ?thesis .
    next
      case (Some msg)
      from basic_fault [OF this, of P op] s show ?thesis
        unfolding r1 by simp
    qed
    with basic_absent_reads [of w op P] a
    have rd: "random_reads w1 = Suc (random_reads w)"
      unfolding w1 assms(3) by simp
    from basic_present [of w1 op P "Some [''basic_auth.csv'' \<mapsto> pw @ '',admin,admin,system:masters'']"] st
    have "secrets w2 key = secrets w1 key \<and> random_reads w2 = random_reads w1"
      unfolding w2 assms(3) by auto
    with pw st rd show ?thesis by blast
  qed
  from present gen twice show ?thesis by blast
qed

theorem deployKubeApiServerSecretBasicAuth_generate_once_witness:
  "\<exists>r1 w1 r2 w2 r3 w3.
     deployKubeApiServerSecretBasicAuth example_package example_operation example_world = (r1, w1) \<and>
     deployKubeApiServerSecretBasicAuth example_package example_operation w1 = (r2, w2) \<and>
     deployKubeApiServerSecretBasicAuth example_package example_operation w2 = (r3, w3) \<and>
     secrets example_world (''garden'', ''virtual-garden-kube-apiserver-basic-auth'') = None \<and>
     r1 = Returned None \<and>
     secrets w1 (''garden'', ''virtual-garden-kube-apiserver-basic-auth'') =
       Some (Some [''basic_auth.csv'' \<mapsto>
         replicate 32 (CHR ''x'') @ '',admin,admin,system:masters'']) \<and>
     random_reads w1 = 1 \<and>
     secrets w2 (''garden'', ''virtual-garden-kube-apiserver-basic-auth'') =
       secrets w1 (''garden'', ''virtual-garden-kube-apiserver-basic-auth'') \<and>
     random_reads w2 = 1 \<and>
     no_faults w1 3 \<and> r2 = Returned None"
proof -
  let ?f = "deployKubeApiServerSecretBasicAuth example_package example_operation"
  let ?key = "(''garden'', ''virtual-garden-kube-apiserver-basic-auth'')"
  obtain r1 w1 where e1: "?f example_world = (r1, w1)" by (cases "?f example_world")
  obtain r2 w2 where e2: "?f w1 = (r2, w2)" by (cases "?f w1")
  obtain r3 w3 where e3: "?f w2 = (r3, w3)" by (cases "?f w2")
  have k: "?key = (namespace example_operation, KubeApiServerSecretNameBasicAuth example_package)"
    by (simp add: example_keys)
  have a: "secrets example_world ?key = None"
    by (simp add: example_world_def)
  have nf: "no_faults example_world 3"
    by (simp add: no_faults_def example_world_def)
  have rnd: "random example_world (random_reads example_world) 32 = Inr (replicate 32 (CHR ''x''))"
    by (simp add: example_world_def)
  from basic_created [OF a [unfolded k] nf rnd] e1
  have r1: "r1 = Returned None" and f1: "faults w1 = faults example_world"
    and c1: "length (calls w1) = 3"
    by (auto simp: example_world_def)
  have nf1: "no_faults w1 3"
    by (simp add: no_faults_def f1 example_world_def)
  note first = deployKubeApiServerSecretBasicAuth_generate_once [OF e1 e2 k]
  note second = deployKubeApiServerSecretBasicAuth_generate_once [OF e2 e3 k]
  from first a r1 rnd
  have s1: "secrets w1 ?key = Some (Some [''basic_auth.csv'' \<mapsto>
         replicate 32 (CHR ''x'') @ '',admin,admin,system:masters''])"
    and rd1: "random_reads w1 = 1"
    and s2: "secrets w2 ?key = secrets w1 ?key" and rd2: "random_reads w2 = 1"
    by (auto simp: example_world_def)
  from second s1 nf1 have "r2 = Returned None" by blast
  with e1 e2 e3 a r1 s1 rd1 s2 rd2 nf1 show ?thesis by blast
qed

lemma enc_absent_success:
  assumes "secrets w (namespace op, KubeApiServerSecretNameEncryptionConfig P) = None"
    and "fst (deployKubeApiServerSecretEncryptionConfig P op w) = Returned None"
  shows "\<exists>secretBytes out. random w (random_reads w) 32 = Inr secretBytes \<and>
           yaml_Marshal P (EncryptionConfiguration
             [ResourceConfiguration [''secrets'']
                [AESCBC [Key ''key'' (EncodeBase64 P secretBytes)], Identity]]) = Inr out \<and>
           secrets (snd (deployKubeApiServerSecretEncryptionConfig P op w))
             (namespace op, KubeApiServerSecretNameEncryptionConfig P) =
           Some (Some [''encryption-config.yaml'' \<mapsto> out])"
  using assms
  by (auto simp: enc_defs client_defs secret_defs
      split: option.splits prod.splits sum.splits if_splits)

text \<open>
  Claim C2. Whatever the store holds before: \<open>deployKubeApiServerSecretEncryptionConfig\<close>
  reads the random source only on the creation branch, that is only when the secret named
  by \<open>KubeApiServerSecretNameEncryptionConfig\<close> is absent, and then once, for the 32 bytes
  of the key of the new encryption configuration; when the secret exists, the random
  source is not read and the value of \<open>encryption-config.yaml\<close> is carried forward as it
  was.
\<close>

theorem deployKubeApiServerSecretEncryptionConfig_random_on_creation_only:
  assumes "deployKubeApiServerSecretEncryptionConfig P op w = (r, w')"
    and "key = (namespace op, KubeApiServerSecretNameEncryptionConfig P)"
  shows "(random_reads w' \<noteq> random_reads w \<longrightarrow>
            secrets w key = None \<and> random_reads w' = Suc (random_reads w)) \<and>
         (secrets w key = None \<and> faults w (length (calls w)) = None \<longrightarrow>
            random_reads w' = Suc (random_reads w)) \<and>
         (secrets w key = None \<and> r = Returned None \<longrightarrow>
            (\<exists>secretBytes out.
               random w (random_reads w) 32 = Inr secretBytes \<and>
               yaml_Marshal P (EncryptionConfiguration
                 [ResourceConfiguration [''secrets'']
                    [AESCBC [Key ''key'' (EncodeBase64 P secretBytes)], Identity]]) = Inr out \<and>
               secrets w' key = Some (Some [''encryption-config.yaml'' \<mapsto> out]))) \<and>
         (\<forall>d. secrets w key = Some d \<longrightarrow>
            random_reads w' = random_reads w \<and>
            (\<exists>d'. secrets w' key = Some d' \<and>
                   stored_value d' ''encryption-config.yaml'' =
                     stored_value d ''encryption-config.yaml'' \<and>
                   (contents d ''encryption-config.yaml'' \<noteq> None \<longrightarrow> d' = d)))"
proof -
  have w': "w' = snd (deployKubeApiServerSecretEncryptionConfig P op w)"
    and r: "r = fst (deployKubeApiServerSecretEncryptionConfig P op w)"
    using assms(1) by simp_all
  have present: "random_reads w' = random_reads w \<and>
            (\<exists>d'. secrets w' key = Some d' \<and>
                   stored_value d' ''encryption-config.yaml'' =
                     stored_value d ''encryption-config.yaml'' \<and>
                   (contents d ''encryption-config.yaml'' \<noteq> None \<longrightarrow> d' = d))"
    if "secrets w key = Some d" for d
    using enc_present [of w op P d] that
    unfolding w' assms(2) by (auto simp: stored_value_def)
  have absent: "random_reads w' = Suc (random_reads w)"
    if "secrets w key = None" and "faults w (length (calls w)) = None"
    using enc_absent_reads [of w op P] that unfolding w' assms(2) by simp
  have fault: "random_reads w' = random_reads w" if "faults w (length (calls w)) = Some msg" for msg
    using enc_fault [OF that, of P op] unfolding w' by simp
  have only: "secrets w key = None \<and> random_reads w' = Suc (random_reads w)"
    if ne: "random_reads w' \<noteq> random_reads w"
  proof (cases "secrets w key")
    case None
    show ?thesis
    proof (cases "faults w (length (calls w))")
      case None
      with \<open>secrets w key = None\<close> absent show ?thesis by simp
    next
      case (Some msg)
      with fault ne show ?thesis by simp
    qed
  next
    case (Some d)
    with present ne show ?thesis by blast
  qed
  have created: "\<exists>secretBytes out.
               random w (random_reads w) 32 = Inr secretBytes \<and>
               yaml_Marshal P (EncryptionConfiguration
                 [ResourceConfiguration [''secrets'']
                    [AESCBC [Key ''key'' (EncodeBase64 P secretBytes)], Identity]]) = Inr out \<and>
               secrets w' key = Some (Some [''encryption-config.yaml'' \<mapsto> out])"
    if "secrets w key = None" and "r = Returned None"
    using enc_absent_success [of w op P] that unfolding w' r assms(2) by simp
  from present absent only created show ?thesis by blast
qed

theorem deployKubeApiServerSecretEncryptionConfig_random_on_creation_only_witness:
  "\<exists>r1 w1 r2 w2.
     deployKubeApiServerSecretEncryptionConfig example_package example_operation example_world =
       (r1, w1) \<and>
     deployKubeApiServerSecretEncryptionConfig example_package example_operation w1 = (r2, w2) \<and>
     secrets example_world (''garden'', ''virtual-garden-kube-apiserver-encryption-config'') = None \<and>
     faults example_world (length (calls example_world)) = None \<and>
     r1 = Returned None \<and>
     random_reads w1 = 1 \<and>
     secrets w1 (''garden'', ''virtual-garden-kube-apiserver-encryption-config'') =
       Some (Some [''encryption-config.yaml'' \<mapsto> ''resources: []'']) \<and>
     random_reads w2 = 1 \<and>
     secrets w2 (''garden'', ''virtual-garden-kube-apiserver-encryption-config'') =
       Some (Some [''encryption-config.yaml'' \<mapsto> ''resources: []''])"
proof -
  let ?f = "deployKubeApiServerSecretEncryptionConfig example_package example_operation"
  let ?key = "(''garden'', ''virtual-garden-kube-apiserver-encryption-config'')"
  obtain r1 w1 where e1: "?f example_world = (r1, w1)" by (cases "?f example_world")
  obtain r2 w2 where e2: "?f w1 = (r2, w2)" by (cases "?f w1")
  have k: "?key =
      (namespace example_operation, KubeApiServerSecretNameEncryptionConfig example_package)"
    by (simp add: example_keys)
  have a: "secrets example_world ?key = None"
    and nf0: "faults example_world (length (calls example_world)) = None"
    by (simp_all add: example_world_def)
  have nf: "no_faults example_world 3"
    by (simp add: no_faults_def example_world_def)
  have rnd: "random example_world (random_reads example_world) 32 = Inr (replicate 32 (CHR ''x''))"
    by (simp add: example_world_def)
  have ym: "yaml_Marshal example_package (EncryptionConfiguration
           [ResourceConfiguration [''secrets'']
              [AESCBC [Key ''key'' (EncodeBase64 example_package (replicate 32 (CHR ''x'')))],
               Identity]]) = Inr ''resources: []''"
    by (simp add: example_package_def)
  from enc_created [OF a [unfolded k] nf rnd ym] e1
  have r1: "r1 = Returned None"
    by simp
  note first = deployKubeApiServerSecretEncryptionConfig_random_on_creation_only [OF e1 k]
  note second = deployKubeApiServerSecretEncryptionConfig_random_on_creation_only [OF e2 k]
  from first [THEN conjunct2, THEN conjunct1] a nf0
  have rd1: "random_reads w1 = 1"
    by (simp add: example_world_def)
  from first [THEN conjunct2, THEN conjunct2, THEN conjunct1] a r1
  obtain out where "yaml_Marshal example_package (EncryptionConfiguration
           [ResourceConfiguration [''secrets'']
              [AESCBC [Key ''key'' (EncodeBase64 example_package (replicate 32 (CHR ''x'')))],
               Identity]]) = Inr out"
    and "secrets w1 ?key = Some (Some [''encryption-config.yaml'' \<mapsto> out])"
    unfolding rnd by auto
  with ym have s1: "secrets w1 ?key =
      Some (Some [''encryption-config.yaml'' \<mapsto> ''resources: []''])"
    by simp
  from second [THEN conjunct2, THEN conjunct2, THEN conjunct2] s1 rd1
  have "random_reads w2 = 1"
    and "secrets w2 ?key = Some (Some [''encryption-config.yaml'' \<mapsto> ''resources: []''])"
    by auto
  with e1 e2 a nf0 r1 rd1 s1 show ?thesis by blast
qed

text \<open>
  Claim C4. In \<open>deployKubeApiServerSecretBasicAuth\<close> and
  \<open>deployKubeApiServerSecretEncryptionConfig\<close>, a NotFound answer to the first \<open>Get\<close> is not
  an error: it selects the creation branch (the random source is read) and the operation
  goes on to create the secret, and NotFound is never the result. Any other error of that
  \<open>Get\<close> is the result of the operation, and nothing is written: the store holds what it
  held, and the \<open>Get\<close> is the only request sent.
\<close>

theorem deploy_secret_Get_errors:
  "(faults w (length (calls w)) = Some msg \<longrightarrow>
      deployKubeApiServerSecretBasicAuth P op w =
        (Returned (Some (StoreError msg)),
         w\<lparr>calls := calls w @ [GetSecret (namespace op, KubeApiServerSecretNameBasicAuth P)]\<rparr>) \<and>
      deployKubeApiServerSecretEncryptionConfig P op w =
        (Returned (Some (StoreError msg)),
         w\<lparr>calls := calls w @
            [GetSecret (namespace op, KubeApiServerSecretNameEncryptionConfig P)]\<rparr>)) \<and>
   fst (deployKubeApiServerSecretBasicAuth P op w) \<noteq> Returned (Some NotFound) \<and>
   fst (deployKubeApiServerSecretEncryptionConfig P op w) \<noteq> Returned (Some NotFound) \<and>
   (faults w (length (calls w)) = None \<and>
    secrets w (namespace op, KubeApiServerSecretNameBasicAuth P) = None \<longrightarrow>
      random_reads (snd (deployKubeApiServerSecretBasicAuth P op w)) = Suc (random_reads w)) \<and>
   (faults w (length (calls w)) = None \<and>
    secrets w (namespace op, KubeApiServerSecretNameEncryptionConfig P) = None \<longrightarrow>
      random_reads (snd (deployKubeApiServerSecretEncryptionConfig P op w)) =
        Suc (random_reads w)) \<and>
   (secrets w (namespace op, KubeApiServerSecretNameBasicAuth P) = None \<and> no_faults w 3 \<and>
    random w (random_reads w) 32 = Inr pw \<longrightarrow>
      deployKubeApiServerSecretBasicAuth P op w =
        (Returned None,
         w\<lparr>secrets := (secrets w)((namespace op, KubeApiServerSecretNameBasicAuth P) \<mapsto>
               Some [''basic_auth.csv'' \<mapsto> pw @ '',admin,admin,system:masters'']),
           calls := calls w @ [GetSecret (namespace op, KubeApiServerSecretNameBasicAuth P),
                               GetSecret (namespace op, KubeApiServerSecretNameBasicAuth P),
                               CreateSecret (namespace op, KubeApiServerSecretNameBasicAuth P)],
           random_reads := Suc (random_reads w)\<rparr>)) \<and>
   (secrets w (namespace op, KubeApiServerSecretNameEncryptionConfig P) = None \<and>
    no_faults w 3 \<and> random w (random_reads w) 32 = Inr pw \<and>
    yaml_Marshal P (EncryptionConfiguration
           [ResourceConfiguration [''secrets'']
              [AESCBC [Key ''key'' (EncodeBase64 P pw)], Identity]]) = Inr out \<longrightarrow>
      deployKubeApiServerSecretEncryptionConfig P op w =
        (Returned None,
         w\<lparr>secrets := (secrets w)((namespace op, KubeApiServerSecretNameEncryptionConfig P) \<mapsto>
               Some [''encryption-config.yaml'' \<mapsto> out]),
           calls := calls w @
             [GetSecret (namespace op, KubeApiServerSecretNameEncryptionConfig P),
              GetSecret (namespace op, KubeApiServerSecretNameEncryptionConfig P),
              CreateSecret (namespace op, KubeApiServerSecretNameEncryptionConfig P)],
           random_reads := Suc (random_reads w)\<rparr>))"
  apply (intro conjI impI)
         apply (erule basic_fault)
        apply (erule enc_fault)
       apply (rule basic_never_NotFound)
      apply (rule enc_never_NotFound)
     apply (elim conjE, rule basic_absent_reads, assumption+)
    apply (elim conjE, rule enc_absent_reads, assumption+)
   apply (elim conjE, rule basic_created, assumption+)
  apply (elim conjE, rule enc_created, assumption+)
  done

theorem deploy_secret_Get_errors_witness:
  "faults (example_world\<lparr>faults := (\<lambda>i. if i = 0 then Some ''timeout'' else None)\<rparr>)
     (length (calls (example_world\<lparr>faults := (\<lambda>i. if i = 0 then Some ''timeout'' else None)\<rparr>))) =
     Some ''timeout'' \<and>
   deployKubeApiServerSecretBasicAuth example_package example_operation
     (example_world\<lparr>faults := (\<lambda>i. if i = 0 then Some ''timeout'' else None)\<rparr>) =
     (Returned (Some (StoreError ''timeout'')),
      example_world\<lparr>faults := (\<lambda>i. if i = 0 then Some ''timeout'' else None),
        calls := [GetSecret (''garden'', ''virtual-garden-kube-apiserver-basic-auth'')]\<rparr>) \<and>
   deployKubeApiServerSecretEncryptionConfig example_package example_operation
     (example_world\<lparr>faults := (\<lambda>i. if i = 0 then Some ''timeout'' else None)\<rparr>) =
     (Returned (Some (StoreError ''timeout'')),
      example_world\<lparr>faults := (\<lambda>i. if i = 0 then Some ''timeout'' else None),
        calls := [GetSecret (''garden'', ''virtual-garden-kube-apiserver-encryption-config'')]\<rparr>) \<and>
   secrets example_world (''garden'', ''virtual-garden-kube-apiserver-basic-auth'') = None \<and>
   secrets example_world (''garden'', ''virtual-garden-kube-apiserver-encryption-config'') = None \<and>
   no_faults example_world 3 \<and>
   fst (deployKubeApiServerSecretBasicAuth example_package example_operation example_world) =
     Returned None \<and>
   fst (deployKubeApiServerSecretEncryptionConfig example_package example_operation example_world) =
     Returned None \<and>
   random_reads (snd (deployKubeApiServerSecretBasicAuth example_package example_operation
     example_world)) = 1 \<and>
   random_reads (snd (deployKubeApiServerSecretEncryptionConfig example_package example_operation
     example_world)) = 1"
proof -
  let ?wf = "example_world\<lparr>faults := (\<lambda>i. if i = 0 then Some ''timeout'' else None)\<rparr>"
  let ?x = "replicate 32 (CHR ''x'')"
  have f: "faults ?wf (length (calls ?wf)) = Some ''timeout''"
    by (simp add: example_world_def)
  have a: "secrets example_world
             (namespace example_operation, KubeApiServerSecretNameBasicAuth example_package) = None"
    "secrets example_world
       (namespace example_operation, KubeApiServerSecretNameEncryptionConfig example_package) = None"
    by (simp_all add: example_world_def)
  have nf: "no_faults example_world 3"
    by (simp add: no_faults_def example_world_def)
  have nf0: "faults example_world (length (calls example_world)) = None"
    by (simp add: example_world_def)
  have rnd: "random example_world (random_reads example_world) 32 = Inr ?x"
    by (simp add: example_world_def)
  have ym: "yaml_Marshal example_package (EncryptionConfiguration
           [ResourceConfiguration [''secrets'']
              [AESCBC [Key ''key'' (EncodeBase64 example_package ?x)], Identity]]) =
           Inr ''resources: []''"
    by (simp add: example_package_def)
  note failing = deploy_secret_Get_errors
    [of ?wf "''timeout''" example_package example_operation ?x "''resources: []''"]
  note creating = deploy_secret_Get_errors
    [of example_world "''timeout''" example_package example_operation ?x "''resources: []''"]
  from failing [THEN conjunct1] f
  have 1: "deployKubeApiServerSecretBasicAuth example_package example_operation ?wf =
     (Returned (Some (StoreError ''timeout'')),
      example_world\<lparr>faults := (\<lambda>i. if i = 0 then Some ''timeout'' else None),
        calls := [GetSecret (''garden'', ''virtual-garden-kube-apiserver-basic-auth'')]\<rparr>)"
    and 2: "deployKubeApiServerSecretEncryptionConfig example_package example_operation ?wf =
     (Returned (Some (StoreError ''timeout'')),
      example_world\<lparr>faults := (\<lambda>i. if i = 0 then Some ''timeout'' else None),
        calls := [GetSecret (''garden'', ''virtual-garden-kube-apiserver-encryption-config'')]\<rparr>)"
    by (simp_all add: example_keys example_world_def)
  from creating [THEN conjunct2, THEN conjunct2, THEN conjunct2, THEN conjunct1] a nf0
  have 3: "random_reads (snd (deployKubeApiServerSecretBasicAuth example_package
      example_operation example_world)) = 1"
    by (simp add: example_world_def)
  from creating [THEN conjunct2, THEN conjunct2, THEN conjunct2, THEN conjunct2, THEN conjunct1]
    a nf0
  have 4: "random_reads (snd (deployKubeApiServerSecretEncryptionConfig example_package
      example_operation example_world)) = 1"
    by (simp add: example_world_def)
  from creating [THEN conjunct2, THEN conjunct2, THEN conjunct2, THEN conjunct2, THEN conjunct2,
      THEN conjunct1] a nf rnd
  have 5: "fst (deployKubeApiServerSecretBasicAuth example_package example_operation
      example_world) = Returned None"
    by simp
  from creating [THEN conjunct2, THEN conjunct2, THEN conjunct2, THEN conjunct2, THEN conjunct2,
      THEN conjunct2] a nf rnd ym
  have 6: "fst (deployKubeApiServerSecretEncryptionConfig example_package example_operation
      example_world) = Returned None"
    by simp
  from f 1 2 a [unfolded example_keys] nf 3 4 5 6 show ?thesis
    by (intro conjI)
qed

lemma no_faults_step:
  assumes "no_faults w (Suc n)" and "faults w' = faults w"
    and "length (calls w') = Suc (length (calls w))"
  shows "faults w (length (calls w)) = None" and "no_faults w' n"
proof -
  from assms(1) have "faults w (length (calls w) + 0) = None"
    unfolding no_faults_def by blast
  then show "faults w (length (calls w)) = None" by simp
  show "no_faults w' n"
    unfolding no_faults_def
  proof (intro allI impI)
    fix j assume "j < n"
    then have "Suc j < Suc n" by simp
    with assms(1) have "faults w (length (calls w) + Suc j) = None"
      unfolding no_faults_def by blast
    then show "faults w' (length (calls w') + j) = None"
      by (simp add: assms(2,3))
  qed
qed

lemma client_Delete_Secret_answered:
  assumes "faults w (length (calls w)) = None"
  shows "\<exists>err. IgnoreNotFound err = None \<and>
           client_Delete_Secret obj w =
             (err, w\<lparr>secrets := (secrets w)(GetKey obj := None),
                     calls := calls w @ [DeleteSecret (GetKey obj)]\<rparr>)"
proof (cases "secrets w (GetKey obj)")
  case None
  then have "(secrets w)(GetKey obj := None) = secrets w" by (simp add: fun_eq_iff)
  with None assms show ?thesis
    by (simp add: client_Delete_Secret_def IgnoreNotFound_def)
next
  case (Some d)
  with assms show ?thesis
    by (simp add: client_Delete_Secret_def IgnoreNotFound_def)
qed

lemma deleteKubeAPIServerSecrets_loop_answered:
  assumes "no_faults w (length names)"
  shows "deleteKubeAPIServerSecrets_loop op names w =
           (Returned None,
            w\<lparr>secrets := (\<lambda>k. if k \<in> (\<lambda>n. (namespace op, n)) ` set names then None
                               else secrets w k),
              calls := calls w @ map (\<lambda>n. DeleteSecret (namespace op, n)) names\<rparr>)"
  using assms
proof (induction names arbitrary: w)
  case Nil
  then show ?case by simp
next
  case (Cons name names)
  let ?k = "(namespace op, name)"
  let ?w1 = "w\<lparr>secrets := (secrets w)(?k := None), calls := calls w @ [DeleteSecret ?k]\<rparr>"
  from Cons.prems have nf: "no_faults w (Suc (length names))" by simp
  have f: "faults w (length (calls w)) = None" and nf1: "no_faults ?w1 (length names)"
    using no_faults_step [OF nf, of ?w1] by simp_all
  from client_Delete_Secret_answered [OF f, of "emptySecret op name"]
  obtain err where i: "IgnoreNotFound err = None"
    and d: "client_Delete_Secret (emptySecret op name) w = (err, ?w1)"
    by (auto simp: GetKey_def emptySecret_def)
  have "deleteKubeAPIServerSecrets_loop op (name # names) w =
          deleteKubeAPIServerSecrets_loop op names ?w1"
    using i d by simp
  also have "\<dots> = (Returned None,
            ?w1\<lparr>secrets := (\<lambda>k. if k \<in> (\<lambda>n. (namespace op, n)) ` set names then None
                               else secrets ?w1 k),
              calls := calls ?w1 @ map (\<lambda>n. DeleteSecret (namespace op, n)) names\<rparr>)"
    by (rule Cons.IH [OF nf1])
  also have "\<dots> = (Returned None,
            w\<lparr>secrets := (\<lambda>k. if k \<in> (\<lambda>n. (namespace op, n)) ` set (name # names) then None
                               else secrets w k),
              calls := calls w @ map (\<lambda>n. DeleteSecret (namespace op, n)) (name # names)\<rparr>)"
    by (auto simp: fun_eq_iff)
  finally show ?case .
qed

lemma client_Delete_Deployment_answered:
  assumes "faults w (length (calls w)) = None"
  shows "\<exists>err. IgnoreNotFound err = None \<and>
           client_Delete_Deployment key w =
             (err, w\<lparr>deployments := deployments w - {key},
                     calls := calls w @ [DeleteDeployment key]\<rparr>)"
proof (cases "key \<in> deployments w")
  case False
  then have "deployments w - {key} = deployments w" by simp
  with False assms show ?thesis
    by (simp add: client_Delete_Deployment_def IgnoreNotFound_def)
next
  case True
  with assms show ?thesis
    by (simp add: client_Delete_Deployment_def IgnoreNotFound_def)
qed

lemma deleteDeployments_loop_answered:
  assumes "no_faults w (length names)"
  shows "deleteDeployments_loop op names w =
           (Returned None,
            w\<lparr>deployments := deployments w - (\<lambda>n. (namespace op, n)) ` set names,
              calls := calls w @ map (\<lambda>n. DeleteDeployment (namespace op, n)) names\<rparr>)"
  using assms
proof (induction names arbitrary: w)
  case Nil
  then show ?case by simp
next
  case (Cons name names)
  let ?k = "(namespace op, name)"
  let ?w1 = "w\<lparr>deployments := deployments w - {?k}, calls := calls w @ [DeleteDeployment ?k]\<rparr>"
  from Cons.prems have nf: "no_faults w (Suc (length names))" by simp
  have f: "faults w (length (calls w)) = None" and nf1: "no_faults ?w1 (length names)"
    using no_faults_step [OF nf, of ?w1] by simp_all
  from client_Delete_Deployment_answered [OF f, of ?k]
  obtain err where i: "IgnoreNotFound err = None"
    and d: "client_Delete_Deployment ?k w = (err, ?w1)"
    by auto
  have "deleteDeployments_loop op (name # names) w = deleteDeployments_loop op names ?w1"
    using i d by (simp add: emptyDeployment_def)
  also have "\<dots> = (Returned None,
            ?w1\<lparr>deployments := deployments ?w1 - (\<lambda>n. (namespace op, n)) ` set names,
              calls := calls ?w1 @ map (\<lambda>n. DeleteDeployment (namespace op, n)) names\<rparr>)"
    by (rule Cons.IH [OF nf1])
  also have "\<dots> = (Returned None,
            w\<lparr>deployments := deployments w - (\<lambda>n. (namespace op, n)) ` set (name # names),
              calls := calls w @ map (\<lambda>n. DeleteDeployment (namespace op, n)) (name # names)\<rparr>)"
  proof -
    have "deployments w - {?k} - (\<lambda>n. (namespace op, n)) ` set names =
          deployments w - (\<lambda>n. (namespace op, n)) ` set (name # names)"
      by auto
    then show ?thesis by simp
  qed
  finally show ?case .
qed

text \<open>
  Claim C5. Deletion does not fail on absence. Whatever the store holds, a \<open>Delete\<close> that
  the store answers, with NotFound or with success, does not end the loop of
  \<open>deleteKubeAPIServerSecrets\<close> or of \<open>deleteDeployments\<close>: the loop goes on with the
  remaining names. When the store answers all the requests, both operations return
  success, every named object has been asked to be deleted, in order, and none of them
  exists afterwards. This holds in particular when every named object is absent.
\<close>

theorem delete_ignores_NotFound:
  "(faults w (length (calls w)) = None \<longrightarrow>
      deleteKubeAPIServerSecrets_loop op (name # names) w =
        deleteKubeAPIServerSecrets_loop op names
          (w\<lparr>secrets := (secrets w)((namespace op, name) := None),
             calls := calls w @ [DeleteSecret (namespace op, name)]\<rparr>) \<and>
      deleteDeployments_loop op (name # names) w =
        deleteDeployments_loop op names
          (w\<lparr>deployments := deployments w - {(namespace op, name)},
             calls := calls w @ [DeleteDeployment (namespace op, name)]\<rparr>)) \<and>
   (no_faults w 4 \<longrightarrow>
      (\<exists>w'. deleteKubeAPIServerSecrets P op w = (Returned None, w') \<and>
         calls w' = calls w @
           [DeleteSecret (namespace op, KubeApiServerSecretNameAdmissionKubeconfig P),
            DeleteSecret (namespace op, KubeApiServerSecretNameAuditWebhookConfig),
            DeleteSecret (namespace op, KubeApiServerSecretNameBasicAuth P),
            DeleteSecret (namespace op, KubeApiServerSecretNameEncryptionConfig P)] \<and>
         secrets w' (namespace op, KubeApiServerSecretNameAdmissionKubeconfig P) = None \<and>
         secrets w' (namespace op, KubeApiServerSecretNameAuditWebhookConfig) = None \<and>
         secrets w' (namespace op, KubeApiServerSecretNameBasicAuth P) = None \<and>
         secrets w' (namespace op, KubeApiServerSecretNameEncryptionConfig P) = None)) \<and>
   (no_faults w 2 \<longrightarrow>
      (\<exists>w'. deleteDeployments P op w = (Returned None, w') \<and>
         calls w' = calls w @
           [DeleteDeployment (namespace op, KubeAPIServerDeploymentNameAPIServer P),
            DeleteDeployment (namespace op, KubeAPIServerDeploymentNameControllerManager P)] \<and>
         (namespace op, KubeAPIServerDeploymentNameAPIServer P) \<notin> deployments w' \<and>
         (namespace op, KubeAPIServerDeploymentNameControllerManager P) \<notin> deployments w'))"
proof (intro conjI impI)
  assume f: "faults w (length (calls w)) = None"
  from client_Delete_Secret_answered [OF f, of "emptySecret op name"]
  show "deleteKubeAPIServerSecrets_loop op (name # names) w =
        deleteKubeAPIServerSecrets_loop op names
          (w\<lparr>secrets := (secrets w)((namespace op, name) := None),
             calls := calls w @ [DeleteSecret (namespace op, name)]\<rparr>)"
    by (auto simp: GetKey_def emptySecret_def)
  from client_Delete_Deployment_answered [OF f, of "(namespace op, name)"]
  show "deleteDeployments_loop op (name # names) w =
        deleteDeployments_loop op names
          (w\<lparr>deployments := deployments w - {(namespace op, name)},
             calls := calls w @ [DeleteDeployment (namespace op, name)]\<rparr>)"
    by (auto simp: emptyDeployment_def)
next
  assume "no_faults w 4"
  then have "no_faults w (length [KubeApiServerSecretNameAdmissionKubeconfig P,
        KubeApiServerSecretNameAuditWebhookConfig,
        KubeApiServerSecretNameBasicAuth P,
        KubeApiServerSecretNameEncryptionConfig P])"
    by (simp add: eval_nat_numeral)
  from deleteKubeAPIServerSecrets_loop_answered [OF this, of op]
  show "\<exists>w'. deleteKubeAPIServerSecrets P op w = (Returned None, w') \<and>
         calls w' = calls w @
           [DeleteSecret (namespace op, KubeApiServerSecretNameAdmissionKubeconfig P),
            DeleteSecret (namespace op, KubeApiServerSecretNameAuditWebhookConfig),
            DeleteSecret (namespace op, KubeApiServerSecretNameBasicAuth P),
            DeleteSecret (namespace op, KubeApiServerSecretNameEncryptionConfig P)] \<and>
         secrets w' (namespace op, KubeApiServerSecretNameAdmissionKubeconfig P) = None \<and>
         secrets w' (namespace op, KubeApiServerSecretNameAuditWebhookConfig) = None \<and>
         secrets w' (namespace op, KubeApiServerSecretNameBasicAuth P) = None \<and>
         secrets w' (namespace op, KubeApiServerSecretNameEncryptionConfig P) = None"
    by (simp add: deleteKubeAPIServerSecrets_def)
next
  assume "no_faults w 2"
  then have "no_faults w (length [KubeAPIServerDeploymentNameAPIServer P,
        KubeAPIServerDeploymentNameControllerManager P])"
    by (simp add: eval_nat_numeral)
  from deleteDeployments_loop_answered [OF this, of op]
  show "\<exists>w'. deleteDeployments P op w = (Returned None, w') \<and>
         calls w' = calls w @
           [DeleteDeployment (namespace op, KubeAPIServerDeploymentNameAPIServer P),
            DeleteDeployment (namespace op, KubeAPIServerDeploymentNameControllerManager P)] \<and>
         (namespace op, KubeAPIServerDeploymentNameAPIServer P) \<notin> deployments w' \<and>
         (namespace op, KubeAPIServerDeploymentNameControllerManager P) \<notin> deployments w'"
    by (simp add: deleteDeployments_def)
qed

theorem delete_ignores_NotFound_witness:
  "faults example_world (length (calls example_world)) = None \<and>
   deleteKubeAPIServerSecrets_loop example_operation [''absent'', ''other''] example_world =
     deleteKubeAPIServerSecrets_loop example_operation [''other'']
       (example_world\<lparr>calls := [DeleteSecret (''garden'', ''absent'')]\<rparr>) \<and>
   no_faults example_world 4 \<and> no_faults example_world 2 \<and>
   secrets example_world = Map.empty \<and> deployments example_world = {} \<and>
   fst (deleteKubeAPIServerSecrets example_package example_operation example_world) =
     Returned None \<and>
   fst (deleteDeployments example_package example_operation example_world) = Returned None \<and>
   no_faults (example_world
     \<lparr>secrets := [(''garden'', ''virtual-garden-kube-apiserver-basic-auth'') \<mapsto> None],
      deployments := {(''garden'', ''virtual-garden-kube-controller-manager'')}\<rparr>) 4 \<and>
   fst (deleteKubeAPIServerSecrets example_package example_operation (example_world
     \<lparr>secrets := [(''garden'', ''virtual-garden-kube-apiserver-basic-auth'') \<mapsto> None],
      deployments := {(''garden'', ''virtual-garden-kube-controller-manager'')}\<rparr>)) =
     Returned None \<and>
   secrets (snd (deleteKubeAPIServerSecrets example_package example_operation (example_world
     \<lparr>secrets := [(''garden'', ''virtual-garden-kube-apiserver-basic-auth'') \<mapsto> None],
      deployments := {(''garden'', ''virtual-garden-kube-controller-manager'')}\<rparr>)))
     (''garden'', ''virtual-garden-kube-apiserver-basic-auth'') = None \<and>
   fst (deleteDeployments example_package example_operation (example_world
     \<lparr>secrets := [(''garden'', ''virtual-garden-kube-apiserver-basic-auth'') \<mapsto> None],
      deployments := {(''garden'', ''virtual-garden-kube-controller-manager'')}\<rparr>)) =
     Returned None \<and>
   (''garden'', ''virtual-garden-kube-controller-manager'') \<notin>
     deployments (snd (deleteDeployments example_package example_operation (example_world
     \<lparr>secrets := [(''garden'', ''virtual-garden-kube-apiserver-basic-auth'') \<mapsto> None],
      deployments := {(''garden'', ''virtual-garden-kube-controller-manager'')}\<rparr>)))"
proof -
  let ?w = "example_world
     \<lparr>secrets := [(''garden'', ''virtual-garden-kube-apiserver-basic-auth'') \<mapsto> None],
      deployments := {(''garden'', ''virtual-garden-kube-controller-manager'')}\<rparr>"
  have nf: "no_faults example_world 4" "no_faults example_world 2"
    "no_faults ?w 4" "no_faults ?w 2"
    by (simp_all add: no_faults_def example_world_def)
  have e: "secrets example_world = Map.empty" "deployments example_world = {}"
    by (simp_all add: example_world_def)
  have k: "KubeAPIServerDeploymentNameControllerManager example_package =
      ''virtual-garden-kube-controller-manager''"
    by (simp add: KubeAPIServerDeploymentNameControllerManager_def example_package_def)
  note absent = delete_ignores_NotFound
    [where w = example_world and P = example_package and op = example_operation,
     THEN conjunct2]
  note present = delete_ignores_NotFound
    [where w = ?w and P = example_package and op = example_operation, THEN conjunct2]
  from absent nf(1,2)
  have 1: "fst (deleteKubeAPIServerSecrets example_package example_operation example_world) =
     Returned None"
    and 2: "fst (deleteDeployments example_package example_operation example_world) =
     Returned None"
    by auto
  from present [THEN conjunct1] nf(3)
  have 3: "fst (deleteKubeAPIServerSecrets example_package example_operation ?w) = Returned None"
    and 4: "secrets (snd (deleteKubeAPIServerSecrets example_package example_operation ?w))
     (''garden'', ''virtual-garden-kube-apiserver-basic-auth'') = None"
    by (auto simp: example_keys)
  from present [THEN conjunct2] nf(4)
  have 5: "fst (deleteDeployments example_package example_operation ?w) = Returned None"
    and 6: "(''garden'', ''virtual-garden-kube-controller-manager'') \<notin>
     deployments (snd (deleteDeployments example_package example_operation ?w))"
    by (auto simp: example_keys k)
  have f0: "faults example_world (length (calls example_world)) = None"
    by (simp add: example_world_def)
  have u: "example_world\<lparr>secrets := (secrets example_world)((''garden'', ''absent'') := None),
             calls := calls example_world @ [DeleteSecret (''garden'', ''absent'')]\<rparr> =
           example_world\<lparr>calls := [DeleteSecret (''garden'', ''absent'')]\<rparr>"
    by (simp add: example_world_def)
  from delete_ignores_NotFound
    [where w = example_world and op = example_operation and name = "''absent''"
       and names = "[''other'']", THEN conjunct1] f0
  have 0: "deleteKubeAPIServerSecrets_loop example_operation [''absent'', ''other''] example_world =
     deleteKubeAPIServerSecrets_loop example_operation [''other'']
       (example_world\<lparr>calls := [DeleteSecret (''garden'', ''absent'')]\<rparr>)"
    unfolding example_keys u by blast
  from f0 0 nf e 1 2 3 4 5 6 show ?thesis
    by (intro conjI)
qed

text \<open>
  Claim C9. \<open>deployKubeApiServerSecretAdmissionKubeconfig\<close> returns success and sends no
  request to the store, neither a read nor a write, when the validating and the mutating
  webhook are both disabled in the imports; \<open>deployKubeApiServerSecretAuditWebhookConfig\<close>
  does so when the audit webhook configuration of the imports is the empty string.
\<close>

theorem deploy_secret_disabled_noop:
  "(KubeAPIServer (VirtualGarden (imports op)) = Some apiserver \<and>
      \<not> ValidatingWebhookEnabled (GardenerControlplane apiserver) \<and>
      \<not> MutatingWebhookEnabled (GardenerControlplane apiserver) \<longrightarrow>
    deployKubeApiServerSecretAdmissionKubeconfig P op w = (Returned None, w)) \<and>
   (KubeAPIServer (VirtualGarden (imports op)) = Some apiserver \<and>
      Config (AuditWebhookConfig apiserver) = [] \<longrightarrow>
    deployKubeApiServerSecretAuditWebhookConfig P op w = (Returned None, w))"
  by (simp add: deployKubeApiServerSecretAdmissionKubeconfig_def
      deployKubeApiServerSecretAuditWebhookConfig_def)

theorem deploy_secret_disabled_noop_witness:
  "KubeAPIServer (VirtualGarden (imports example_operation)) =
     Some \<lparr>GardenerControlplane =
             \<lparr>ValidatingWebhookEnabled = False, MutatingWebhookEnabled = False\<rparr>,
           AuditWebhookConfig = \<lparr>Config = ''''\<rparr>\<rparr> \<and>
   deployKubeApiServerSecretAdmissionKubeconfig example_package example_operation example_world =
     (Returned None, example_world) \<and>
   deployKubeApiServerSecretAuditWebhookConfig example_package example_operation example_world =
     (Returned None, example_world) \<and>
   calls (snd (deployKubeApiServerSecretAdmissionKubeconfig example_package example_operation
     example_world)) = [] \<and>
   calls (snd (deployKubeApiServerSecretAuditWebhookConfig example_package example_operation
     example_world)) = []"
proof -
  let ?a = "\<lparr>GardenerControlplane =
             \<lparr>ValidatingWebhookEnabled = False, MutatingWebhookEnabled = False\<rparr>,
           AuditWebhookConfig = \<lparr>Config = ''''\<rparr>\<rparr>"
  have a: "KubeAPIServer (VirtualGarden (imports example_operation)) = Some ?a"
    by (simp add: example_operation_def)
  from deploy_secret_disabled_noop [of example_operation ?a example_package example_world] a
  have "deployKubeApiServerSecretAdmissionKubeconfig example_package example_operation
          example_world = (Returned None, example_world)"
    and "deployKubeApiServerSecretAuditWebhookConfig example_package example_operation
          example_world = (Returned None, example_world)"
    by simp_all
  with a show ?thesis
    by (simp add: example_world_def)
qed

text \<open>
  Claim C8. \<open>deployKubeAPIServerSecrets\<close> returns success exactly when its four steps
  (admission kubeconfig, audit webhook configuration, basic auth, encryption
  configuration), run in this order, each on what the one before left, all return
  success. The first step that returns an error ends the operation: its error is the
  result, and the steps after it are not run (the world is as that step left it).
\<close>

theorem deployKubeAPIServerSecrets_fail_fast:
  "(deployKubeAPIServerSecrets P op w = (Returned None, w4) \<longleftrightarrow>
      (\<exists>w1 w2 w3.
         deployKubeApiServerSecretAdmissionKubeconfig P op w = (Returned None, w1) \<and>
         deployKubeApiServerSecretAuditWebhookConfig P op w1 = (Returned None, w2) \<and>
         deployKubeApiServerSecretBasicAuth P op w2 = (Returned None, w3) \<and>
         deployKubeApiServerSecretEncryptionConfig P op w3 = (Returned None, w4))) \<and>
   (deployKubeApiServerSecretAdmissionKubeconfig P op w = (Returned (Some err), w1) \<longrightarrow>
      deployKubeAPIServerSecrets P op w = (Returned (Some err), w1)) \<and>
   (deployKubeApiServerSecretAdmissionKubeconfig P op w = (Returned None, w1) \<and>
    deployKubeApiServerSecretAuditWebhookConfig P op w1 = (Returned (Some err), w2) \<longrightarrow>
      deployKubeAPIServerSecrets P op w = (Returned (Some err), w2)) \<and>
   (deployKubeApiServerSecretAdmissionKubeconfig P op w = (Returned None, w1) \<and>
    deployKubeApiServerSecretAuditWebhookConfig P op w1 = (Returned None, w2) \<and>
    deployKubeApiServerSecretBasicAuth P op w2 = (Returned (Some err), w3) \<longrightarrow>
      deployKubeAPIServerSecrets P op w = (Returned (Some err), w3)) \<and>
   (deployKubeApiServerSecretAdmissionKubeconfig P op w = (Returned None, w1) \<and>
    deployKubeApiServerSecretAuditWebhookConfig P op w1 = (Returned None, w2) \<and>
    deployKubeApiServerSecretBasicAuth P op w2 = (Returned None, w3) \<and>
    deployKubeApiServerSecretEncryptionConfig P op w3 = (Returned (Some err), w4) \<longrightarrow>
      deployKubeAPIServerSecrets P op w = (Returned (Some err), w4))"
proof (intro conjI impI)
  show "deployKubeAPIServerSecrets P op w = (Returned None, w4) \<longleftrightarrow>
      (\<exists>w1 w2 w3.
         deployKubeApiServerSecretAdmissionKubeconfig P op w = (Returned None, w1) \<and>
         deployKubeApiServerSecretAuditWebhookConfig P op w1 = (Returned None, w2) \<and>
         deployKubeApiServerSecretBasicAuth P op w2 = (Returned None, w3) \<and>
         deployKubeApiServerSecretEncryptionConfig P op w3 = (Returned None, w4))"
    unfolding deployKubeAPIServerSecrets_def
    by (auto split: prod.splits status.splits option.splits)
qed (simp_all add: deployKubeAPIServerSecrets_def)

theorem deployKubeAPIServerSecrets_fail_fast_witness:
  "fst (deployKubeAPIServerSecrets example_package example_operation example_world) =
     Returned None \<and>
   length (calls (snd (deployKubeAPIServerSecrets example_package example_operation
     example_world))) = 6 \<and>
   deployKubeAPIServerSecrets example_package example_operation
     (example_world\<lparr>faults := (\<lambda>i. if i = 0 then Some ''timeout'' else None)\<rparr>) =
     (Returned (Some (StoreError ''timeout'')),
      example_world\<lparr>faults := (\<lambda>i. if i = 0 then Some ''timeout'' else None),
        calls := [GetSecret (''garden'', ''virtual-garden-kube-apiserver-basic-auth'')]\<rparr>)"
proof -
  let ?P = example_package and ?op = example_operation
  let ?wf = "example_world\<lparr>faults := (\<lambda>i. if i = 0 then Some ''timeout'' else None)\<rparr>"
  let ?x = "replicate 32 (CHR ''x'')"
  let ?kb = "(namespace ?op, KubeApiServerSecretNameBasicAuth ?P)"
  let ?ke = "(namespace ?op, KubeApiServerSecretNameEncryptionConfig ?P)"
  let ?w3 = "example_world
        \<lparr>secrets := (secrets example_world)(?kb \<mapsto>
            Some [''basic_auth.csv'' \<mapsto> ?x @ '',admin,admin,system:masters'']),
          calls := calls example_world @ [GetSecret ?kb, GetSecret ?kb, CreateSecret ?kb],
          random_reads := Suc (random_reads example_world)\<rparr>"
  let ?w4 = "?w3\<lparr>secrets := (secrets ?w3)(?ke \<mapsto>
            Some [''encryption-config.yaml'' \<mapsto> ''resources: []'']),
          calls := calls ?w3 @ [GetSecret ?ke, GetSecret ?ke, CreateSecret ?ke],
          random_reads := Suc (random_reads ?w3)\<rparr>"
  have s1: "deployKubeApiServerSecretAdmissionKubeconfig ?P ?op w = (Returned None, w)"
    and s2: "deployKubeApiServerSecretAuditWebhookConfig ?P ?op w = (Returned None, w)" for w
    by (simp_all add: deployKubeApiServerSecretAdmissionKubeconfig_def
        deployKubeApiServerSecretAuditWebhookConfig_def example_operation_def)
  have s3: "deployKubeApiServerSecretBasicAuth ?P ?op example_world = (Returned None, ?w3)"
    by (rule basic_created) (simp_all add: example_world_def no_faults_def)
  have s4: "deployKubeApiServerSecretEncryptionConfig ?P ?op ?w3 = (Returned None, ?w4)"
  proof (rule enc_created [where secretBytes = ?x and out = "''resources: []''"])
    show "secrets ?w3 ?ke = None"
      by (simp add: example_world_def example_keys)
    show "no_faults ?w3 3"
      by (simp add: example_world_def no_faults_def)
    show "random ?w3 (random_reads ?w3) 32 = Inr ?x"
      by (simp add: example_world_def)
    show "yaml_Marshal ?P (EncryptionConfiguration
           [ResourceConfiguration [''secrets'']
              [AESCBC [Key ''key'' (EncodeBase64 ?P ?x)], Identity]]) = Inr ''resources: []''"
      by (simp add: example_package_def)
  qed
  have f3: "deployKubeApiServerSecretBasicAuth ?P ?op ?wf =
      (Returned (Some (StoreError ''timeout'')), ?wf\<lparr>calls := calls ?wf @ [GetSecret ?kb]\<rparr>)"
    by (rule basic_fault) (simp add: example_world_def)
  note ok = deployKubeAPIServerSecrets_fail_fast
    [of ?P ?op example_world ?w4, THEN conjunct1]
  from ok s1 s2 s3 s4
  have r: "deployKubeAPIServerSecrets ?P ?op example_world = (Returned None, ?w4)"
    by blast
  note failing = deployKubeAPIServerSecrets_fail_fast
    [where P = ?P and op = ?op and w = ?wf and ?w1.0 = ?wf and ?w2.0 = ?wf
       and err = "StoreError ''timeout''"
       and ?w3.0 = "?wf\<lparr>calls := calls ?wf @ [GetSecret ?kb]\<rparr>",
     THEN conjunct2, THEN conjunct2, THEN conjunct2, THEN conjunct1]
  from failing s1 s2 f3
  have "deployKubeAPIServerSecrets ?P ?op ?wf =
      (Returned (Some (StoreError ''timeout'')), ?wf\<lparr>calls := calls ?wf @ [GetSecret ?kb]\<rparr>)"
    by blast
  then have 2: "deployKubeAPIServerSecrets ?P ?op ?wf =
     (Returned (Some (StoreError ''timeout'')),
      example_world\<lparr>faults := (\<lambda>i. if i = 0 then Some ''timeout'' else None),
        calls := [GetSecret (''garden'', ''virtual-garden-kube-apiserver-basic-auth'')]\<rparr>)"
    by (simp add: example_keys example_world_def)
  from r have 1: "fst (deployKubeAPIServerSecrets ?P ?op example_world) = Returned None"
    and 3: "length (calls (snd (deployKubeAPIServerSecrets ?P ?op example_world))) = 6"
    by (simp_all add: example_world_def)
  from 1 3 2 show ?thesis by (intro conjI)
qed

section \<open>Properties of the task graph and of the deletion workflow\<close>

text \<open>
  The executor on the scenarios of section 8 of the spec: the graph \<open>A\<close>, \<open>B\<close> after \<open>A\<close>,
  \<open>C\<close> after \<open>A\<close>, \<open>D\<close> after \<open>B\<close> and \<open>C\<close> has the levels \<open>[A]\<close>, \<open>[B, C]\<close>, \<open>[D]\<close>; when
  all bodies succeed the progress reaches 4 of 4; when \<open>B\<close> fails, \<open>C\<close> still completes and
  \<open>D\<close> is not run. A graph with a cycle, an unknown dependency or a duplicate name is
  refused.
\<close>

lemma Compile_diamond:
  "map_sum id (map (map Name))
     (Compile \<lparr>graphName = ''g'', tasks =
        [\<lparr>Name = ''A'', Fn = fa, Dependencies = [], SkipIf = (\<lambda>_. False)\<rparr>,
         \<lparr>Name = ''B'', Fn = fb, Dependencies = [''A''], SkipIf = (\<lambda>_. False)\<rparr>,
         \<lparr>Name = ''C'', Fn = fc, Dependencies = [''A''], SkipIf = (\<lambda>_. False)\<rparr>,
         \<lparr>Name = ''D'', Fn = fd, Dependencies = [''B'', ''C''], SkipIf = (\<lambda>_. False)\<rparr>]\<rparr>) =
   Inr [[''A''], [''B'', ''C''], [''D'']]"
  by (simp add: Compile_def unknown_dependencies_def)

lemma Run_diamond:
  "fst (Run
     [[\<lparr>Name = ''A'', Fn = (\<lambda>w. (None, w)), Dependencies = [], SkipIf = (\<lambda>_. False)\<rparr>],
      [\<lparr>Name = ''B'', Fn = (\<lambda>w. (None, w)), Dependencies = [''A''], SkipIf = (\<lambda>_. False)\<rparr>,
       \<lparr>Name = ''C'', Fn = (\<lambda>w. (None, w)), Dependencies = [''A''], SkipIf = (\<lambda>_. False)\<rparr>],
      [\<lparr>Name = ''D'', Fn = (\<lambda>w. (None, w)), Dependencies = [''B'', ''C''],
        SkipIf = (\<lambda>_. False)\<rparr>]] w) =
   \<lparr>outcomes = [(''A'', Succeeded), (''B'', Succeeded), (''C'', Succeeded), (''D'', Succeeded)],
    firstFailure = None,
    progress = [(1, 4), (2, 4), (3, 4), (4, 4)]\<rparr>"
  by (simp add: Run_def record_outcome_def)

lemma Run_diamond_failure:
  "fst (Run
     [[\<lparr>Name = ''A'', Fn = (\<lambda>w. (None, w)), Dependencies = [], SkipIf = (\<lambda>_. False)\<rparr>],
      [\<lparr>Name = ''B'', Fn = (\<lambda>w. (Some e, w)), Dependencies = [''A''], SkipIf = (\<lambda>_. False)\<rparr>,
       \<lparr>Name = ''C'', Fn = (\<lambda>w. (None, w)), Dependencies = [''A''], SkipIf = (\<lambda>_. False)\<rparr>],
      [\<lparr>Name = ''D'', Fn = (\<lambda>w. (None, w)), Dependencies = [''B'', ''C''],
        SkipIf = (\<lambda>_. False)\<rparr>]] w) =
   \<lparr>outcomes = [(''A'', Succeeded), (''B'', Failed e), (''C'', Succeeded), (''D'', NotRun)],
    firstFailure = Some (''B'', e),
    progress = [(1, 4), (2, 4), (3, 4)]\<rparr>"
  by (simp add: Run_def record_outcome_def record_NotRun_def)

lemma Compile_cycle:
  "Compile \<lparr>graphName = ''g'', tasks =
        [\<lparr>Name = ''A'', Fn = fa, Dependencies = [''B''], SkipIf = (\<lambda>_. False)\<rparr>,
         \<lparr>Name = ''B'', Fn = fb, Dependencies = [''A''], SkipIf = (\<lambda>_. False)\<rparr>,
         \<lparr>Name = ''C'', Fn = fc, Dependencies = [], SkipIf = (\<lambda>_. False)\<rparr>]\<rparr> =
   Inl (Cycle [''A'', ''B'', ''A''])"
  by (simp add: Compile_def unknown_dependencies_def eval_nat_numeral)

lemma Compile_unknown_dependency:
  "Compile \<lparr>graphName = ''g'', tasks =
        [\<lparr>Name = ''A'', Fn = fa, Dependencies = [''B''], SkipIf = (\<lambda>_. False)\<rparr>]\<rparr> =
   Inl (UnknownDependency ''A'' ''B'')"
  by (simp add: Compile_def unknown_dependencies_def)

lemma AddTask_duplicate:
  "Name t \<in> set (map Name (tasks g)) \<Longrightarrow> AddTask g t = Inl (DuplicateName (Name t))"
  by (simp add: AddTask_def)

lemma deletion_graph_eq:
  "deletion_graph S op =
     Inr \<lparr>graphName = ''Virtual Garden Deletion'',
          tasks =
            [\<lparr>Name = ''Deleting the service for exposing the virtual garden kube-apiserver'',
              Fn = DeleteKubeAPIServerService S, Dependencies = [], SkipIf = (\<lambda>_. False)\<rparr>,
             \<lparr>Name = ''Deleting the main and events etcds'',
              Fn = DeleteETCD S, Dependencies = [], SkipIf = (\<lambda>_. False)\<rparr>,
             \<lparr>Name = ''Deleting the backup bucket for the main etcd'',
              Fn = DeleteBackupBucket S,
              Dependencies = [''Deleting the main and events etcds''],
              SkipIf = (\<lambda>_. False)\<rparr>,
             \<lparr>Name = ''Deleting namespace for virtual-garden deployment in hosting cluster'',
              Fn = TaskFn_SkipIf (DeleteNamespace S) (\<not> handleNamespace op),
              Dependencies =
                [''Deleting the service for exposing the virtual garden kube-apiserver'',
                 ''Deleting the main and events etcds'',
                 ''Deleting the backup bucket for the main etcd''],
              SkipIf = (\<lambda>_. False)\<rparr>]\<rparr>"
  by (simp add: deletion_graph_def AddTask_def NewGraph_def Let_def)

lemma deletion_plan:
  "Compile
     \<lparr>graphName = ''Virtual Garden Deletion'',
          tasks =
            [\<lparr>Name = ''Deleting the service for exposing the virtual garden kube-apiserver'',
              Fn = DeleteKubeAPIServerService S, Dependencies = [], SkipIf = (\<lambda>_. False)\<rparr>,
             \<lparr>Name = ''Deleting the main and events etcds'',
              Fn = DeleteETCD S, Dependencies = [], SkipIf = (\<lambda>_. False)\<rparr>,
             \<lparr>Name = ''Deleting the backup bucket for the main etcd'',
              Fn = DeleteBackupBucket S,
              Dependencies = [''Deleting the main and events etcds''],
              SkipIf = (\<lambda>_. False)\<rparr>,
             \<lparr>Name = ''Deleting namespace for virtual-garden deployment in hosting cluster'',
              Fn = TaskFn_SkipIf (DeleteNamespace S) (\<not> handleNamespace op),
              Dependencies =
                [''Deleting the service for exposing the virtual garden kube-apiserver'',
                 ''Deleting the main and events etcds'',
                 ''Deleting the backup bucket for the main etcd''],
              SkipIf = (\<lambda>_. False)\<rparr>]\<rparr> =
   Inr [[\<lparr>Name = ''Deleting the service for exposing the virtual garden kube-apiserver'',
              Fn = DeleteKubeAPIServerService S, Dependencies = [], SkipIf = (\<lambda>_. False)\<rparr>,
             \<lparr>Name = ''Deleting the main and events etcds'',
              Fn = DeleteETCD S, Dependencies = [], SkipIf = (\<lambda>_. False)\<rparr>],
        [\<lparr>Name = ''Deleting the backup bucket for the main etcd'',
              Fn = DeleteBackupBucket S,
              Dependencies = [''Deleting the main and events etcds''],
              SkipIf = (\<lambda>_. False)\<rparr>],
        [\<lparr>Name = ''Deleting namespace for virtual-garden deployment in hosting cluster'',
              Fn = TaskFn_SkipIf (DeleteNamespace S) (\<not> handleNamespace op),
              Dependencies =
                [''Deleting the service for exposing the virtual garden kube-apiserver'',
                 ''Deleting the main and events etcds'',
                 ''Deleting the backup bucket for the main etcd''],
              SkipIf = (\<lambda>_. False)\<rparr>]]"
  by (simp add: Compile_def unknown_dependencies_def)


lemma Delete_eq:
  "Delete S op w =
     (case Run [[\<lparr>Name = ''Deleting the service for exposing the virtual garden kube-apiserver'',
              Fn = DeleteKubeAPIServerService S, Dependencies = [], SkipIf = (\<lambda>_. False)\<rparr>,
             \<lparr>Name = ''Deleting the main and events etcds'',
              Fn = DeleteETCD S, Dependencies = [], SkipIf = (\<lambda>_. False)\<rparr>],
        [\<lparr>Name = ''Deleting the backup bucket for the main etcd'',
              Fn = DeleteBackupBucket S,
              Dependencies = [''Deleting the main and events etcds''],
              SkipIf = (\<lambda>_. False)\<rparr>],
        [\<lparr>Name = ''Deleting namespace for virtual-garden deployment in hosting cluster'',
              Fn = TaskFn_SkipIf (DeleteNamespace S) (\<not> handleNamespace op),
              Dependencies =
                [''Deleting the service for exposing the virtual garden kube-apiserver'',
                 ''Deleting the main and events etcds'',
                 ''Deleting the backup bucket for the main etcd''],
              SkipIf = (\<lambda>_. False)\<rparr>]] w of (r, w') \<Rightarrow> (Inr r, w'))"
  unfolding Delete_def deletion_graph_eq sum.case deletion_plan ..

text \<open>
  Claim C6. The task graph of the deletion workflow (delete the kube-apiserver service;
  delete the etcds; delete the backup bucket, after the etcds; delete the namespace, after
  all three) has no cycle: \<open>Compile\<close> succeeds, and in its plan the level of every task is
  strictly greater than the level of each of its dependencies. The backup bucket is
  deleted at a later level than the etcds, and the namespace at a later level than the
  service, the etcds and the backup bucket.
\<close>

theorem deletion_graph_levels:
  "\<exists>g plan.
     deletion_graph S op = Inr g \<and> Compile g = Inr plan \<and>
     map (map Name) plan =
       [[''Deleting the service for exposing the virtual garden kube-apiserver'',
         ''Deleting the main and events etcds''],
        [''Deleting the backup bucket for the main etcd''],
        [''Deleting namespace for virtual-garden deployment in hosting cluster'']] \<and>
     level_of plan ''Deleting the service for exposing the virtual garden kube-apiserver'' =
       Some 0 \<and>
     level_of plan ''Deleting the main and events etcds'' = Some 0 \<and>
     level_of plan ''Deleting the backup bucket for the main etcd'' = Some 1 \<and>
     level_of plan ''Deleting namespace for virtual-garden deployment in hosting cluster'' =
       Some 2 \<and>
     (\<forall>t \<in> set (tasks g). \<forall>d \<in> set (Dependencies t).
        \<exists>i j. level_of plan d = Some i \<and> level_of plan (Name t) = Some j \<and> i < j)"
  unfolding deletion_graph_eq
  apply (intro exI conjI)
         apply (rule refl)
        apply (rule deletion_plan)
       apply simp
      apply simp
     apply simp
    apply simp
   apply simp
  apply simp
  done

theorem deletion_graph_levels_witness:
  "\<exists>g plan t.
     deletion_graph example_steps example_operation = Inr g \<and> Compile g = Inr plan \<and>
     t \<in> set (tasks g) \<and>
     Name t = ''Deleting the backup bucket for the main etcd'' \<and>
     ''Deleting the main and events etcds'' \<in> set (Dependencies t) \<and>
     (\<exists>i j. level_of plan ''Deleting the main and events etcds'' = Some i \<and>
            level_of plan ''Deleting the backup bucket for the main etcd'' = Some j \<and> i < j)"
proof -
  from deletion_graph_levels [of example_steps example_operation]
  obtain g plan where g: "deletion_graph example_steps example_operation = Inr g"
    and p: "Compile g = Inr plan"
    and l: "\<And>t d. t \<in> set (tasks g) \<Longrightarrow> d \<in> set (Dependencies t) \<Longrightarrow>
        \<exists>i j. level_of plan d = Some i \<and> level_of plan (Name t) = Some j \<and> i < j"
    by blast
  let ?t = "\<lparr>Name = ''Deleting the backup bucket for the main etcd'',
              Fn = DeleteBackupBucket example_steps,
              Dependencies = [''Deleting the main and events etcds''],
              SkipIf = (\<lambda>_. False)\<rparr>"
  from g have t: "?t \<in> set (tasks g)"
    unfolding deletion_graph_eq by auto
  have d: "''Deleting the main and events etcds'' \<in> set (Dependencies ?t)"
    by simp
  from l [OF t d]
  have "\<exists>i j. level_of plan ''Deleting the main and events etcds'' = Some i \<and>
            level_of plan ''Deleting the backup bucket for the main etcd'' = Some j \<and> i < j"
    by simp
  with g p t d show ?thesis
    by (intro exI [of _ g] exI [of _ plan] exI [of _ ?t]) simp
qed

text \<open>
  Claim C7, as the code has it. In the deletion workflow the skip of the namespace task is
  inside its function: the task has no skip predicate, and its function is
  \<open>DeleteNamespace\<close> wrapped by \<open>SkipIf\<close>. When \<open>handleNamespace\<close> is false the body
  \<open>DeleteNamespace\<close> is never invoked (the run is the same whatever the body is) and the
  function returns nil, so the task is recorded as succeeded, not as skipped and never as
  failed (or as not run, after a failure of an earlier task), and the run completes
  successfully when the other three tasks succeed. When \<open>handleNamespace\<close> is true the
  body is invoked once the other three tasks have succeeded, on what they left, and its
  result is the outcome of the task.
\<close>

theorem deletion_skips_namespace:
  "(\<not> handleNamespace op \<longrightarrow>
      Delete (S\<lparr>DeleteNamespace := body\<rparr>) op w = Delete S op w \<and>
      (\<exists>r w'. Delete S op w = (Inr r, w') \<and>
         (map_of (outcomes r)
            ''Deleting namespace for virtual-garden deployment in hosting cluster'' =
              Some Succeeded \<or>
          map_of (outcomes r)
            ''Deleting namespace for virtual-garden deployment in hosting cluster'' = Some NotRun))) \<and>
   (DeleteKubeAPIServerService S w = (None, w1) \<and> DeleteETCD S w1 = (None, w2) \<and>
    DeleteBackupBucket S w2 = (None, w3) \<longrightarrow>
      (\<not> handleNamespace op \<longrightarrow>
         Delete S op w =
           (Inr \<lparr>outcomes =
                   [(''Deleting the service for exposing the virtual garden kube-apiserver'',
                     Succeeded),
                    (''Deleting the main and events etcds'', Succeeded),
                    (''Deleting the backup bucket for the main etcd'', Succeeded),
                    (''Deleting namespace for virtual-garden deployment in hosting cluster'',
                     Succeeded)],
                 firstFailure = None,
                 progress = [(1, 4), (2, 4), (3, 4), (4, 4)]\<rparr>, w3)) \<and>
      (handleNamespace op \<longrightarrow>
         Delete S op w =
           (case DeleteNamespace S w3 of
              (None, w4) \<Rightarrow>
                (Inr \<lparr>outcomes =
                   [(''Deleting the service for exposing the virtual garden kube-apiserver'',
                     Succeeded),
                    (''Deleting the main and events etcds'', Succeeded),
                    (''Deleting the backup bucket for the main etcd'', Succeeded),
                    (''Deleting namespace for virtual-garden deployment in hosting cluster'',
                     Succeeded)],
                 firstFailure = None,
                 progress = [(1, 4), (2, 4), (3, 4), (4, 4)]\<rparr>, w4)
            | (Some e, w4) \<Rightarrow>
                (Inr \<lparr>outcomes =
                   [(''Deleting the service for exposing the virtual garden kube-apiserver'',
                     Succeeded),
                    (''Deleting the main and events etcds'', Succeeded),
                    (''Deleting the backup bucket for the main etcd'', Succeeded),
                    (''Deleting namespace for virtual-garden deployment in hosting cluster'',
                     Failed e)],
                 firstFailure = 
                   Some (''Deleting namespace for virtual-garden deployment in hosting cluster'',
                         e),
                 progress = [(1, 4), (2, 4), (3, 4), (4, 4)]\<rparr>, w4))))"
proof (intro conjI impI)
  assume skip: "\<not> handleNamespace op"
  show "Delete (S\<lparr>DeleteNamespace := body\<rparr>) op w = Delete S op w"
    unfolding Delete_eq using skip
    by (simp add: Run_def record_outcome_def record_NotRun_def TaskFn_SkipIf_def
        split: prod.splits option.splits)
  show "\<exists>r w'. Delete S op w = (Inr r, w') \<and>
         (map_of (outcomes r)
            ''Deleting namespace for virtual-garden deployment in hosting cluster'' =
              Some Succeeded \<or>
          map_of (outcomes r)
            ''Deleting namespace for virtual-garden deployment in hosting cluster'' = Some NotRun)"
    unfolding Delete_eq using skip
    by (simp add: Run_def record_outcome_def record_NotRun_def TaskFn_SkipIf_def
        split: prod.splits option.splits)
next
  assume "DeleteKubeAPIServerService S w = (None, w1) \<and> DeleteETCD S w1 = (None, w2) \<and>
    DeleteBackupBucket S w2 = (None, w3)" and "\<not> handleNamespace op"
  then show "Delete S op w =
           (Inr \<lparr>outcomes =
                   [(''Deleting the service for exposing the virtual garden kube-apiserver'',
                     Succeeded),
                    (''Deleting the main and events etcds'', Succeeded),
                    (''Deleting the backup bucket for the main etcd'', Succeeded),
                    (''Deleting namespace for virtual-garden deployment in hosting cluster'',
                     Succeeded)],
                 firstFailure = None,
                 progress = [(1, 4), (2, 4), (3, 4), (4, 4)]\<rparr>, w3)"
    unfolding Delete_eq
    by (simp add: Run_def record_outcome_def TaskFn_SkipIf_def)
next
  assume "DeleteKubeAPIServerService S w = (None, w1) \<and> DeleteETCD S w1 = (None, w2) \<and>
    DeleteBackupBucket S w2 = (None, w3)" and "handleNamespace op"
  then show "Delete S op w =
           (case DeleteNamespace S w3 of
              (None, w4) \<Rightarrow>
                (Inr \<lparr>outcomes =
                   [(''Deleting the service for exposing the virtual garden kube-apiserver'',
                     Succeeded),
                    (''Deleting the main and events etcds'', Succeeded),
                    (''Deleting the backup bucket for the main etcd'', Succeeded),
                    (''Deleting namespace for virtual-garden deployment in hosting cluster'',
                     Succeeded)],
                 firstFailure = None,
                 progress = [(1, 4), (2, 4), (3, 4), (4, 4)]\<rparr>, w4)
            | (Some e, w4) \<Rightarrow>
                (Inr \<lparr>outcomes =
                   [(''Deleting the service for exposing the virtual garden kube-apiserver'',
                     Succeeded),
                    (''Deleting the main and events etcds'', Succeeded),
                    (''Deleting the backup bucket for the main etcd'', Succeeded),
                    (''Deleting namespace for virtual-garden deployment in hosting cluster'',
                     Failed e)],
                 firstFailure = 
                   Some (''Deleting namespace for virtual-garden deployment in hosting cluster'',
                         e),
                 progress = [(1, 4), (2, 4), (3, 4), (4, 4)]\<rparr>, w4))"
    unfolding Delete_eq
    by (simp add: Run_def record_outcome_def TaskFn_SkipIf_def split: prod.splits option.splits)
qed

theorem deletion_skips_namespace_witness:
  "\<not> handleNamespace example_operation \<and>
   DeleteKubeAPIServerService example_steps
     (example_world\<lparr>deployments := {(''garden'', ''etcd'')}\<rparr>) =
     (None, (example_world\<lparr>deployments := {(''garden'', ''etcd'')}\<rparr>)) \<and>
   DeleteETCD example_steps (example_world\<lparr>deployments := {(''garden'', ''etcd'')}\<rparr>) =
     (None, (example_world\<lparr>deployments := {(''garden'', ''etcd'')}\<rparr>)) \<and>
   DeleteBackupBucket example_steps (example_world\<lparr>deployments := {(''garden'', ''etcd'')}\<rparr>) =
     (None, (example_world\<lparr>deployments := {(''garden'', ''etcd'')}\<rparr>)) \<and>
   Delete example_steps example_operation
     (example_world\<lparr>deployments := {(''garden'', ''etcd'')}\<rparr>) =
     (Inr \<lparr>outcomes =
             [(''Deleting the service for exposing the virtual garden kube-apiserver'', Succeeded),
              (''Deleting the main and events etcds'', Succeeded),
              (''Deleting the backup bucket for the main etcd'', Succeeded),
              (''Deleting namespace for virtual-garden deployment in hosting cluster'',
               Succeeded)],
           firstFailure = None,
           progress = [(1, 4), (2, 4), (3, 4), (4, 4)]\<rparr>,
      (example_world\<lparr>deployments := {(''garden'', ''etcd'')}\<rparr>)) \<and>
   Delete (example_steps\<lparr>DeleteNamespace := (\<lambda>w. (Some NotFound, w))\<rparr>) example_operation
     (example_world\<lparr>deployments := {(''garden'', ''etcd'')}\<rparr>) =
   Delete example_steps example_operation
     (example_world\<lparr>deployments := {(''garden'', ''etcd'')}\<rparr>) \<and>
   handleNamespace (example_operation\<lparr>handleNamespace := True\<rparr>) \<and>
   Delete example_steps (example_operation\<lparr>handleNamespace := True\<rparr>)
     (example_world\<lparr>deployments := {(''garden'', ''etcd'')}\<rparr>) =
     (Inr \<lparr>outcomes =
             [(''Deleting the service for exposing the virtual garden kube-apiserver'', Succeeded),
              (''Deleting the main and events etcds'', Succeeded),
              (''Deleting the backup bucket for the main etcd'', Succeeded),
              (''Deleting namespace for virtual-garden deployment in hosting cluster'',
               Succeeded)],
           firstFailure = None,
           progress = [(1, 4), (2, 4), (3, 4), (4, 4)]\<rparr>,
      example_world\<lparr>deployments := {}\<rparr>)"
proof -
  let ?w = "example_world\<lparr>deployments := {(''garden'', ''etcd'')}\<rparr>"
  let ?on = "example_operation\<lparr>handleNamespace := True\<rparr>"
  have h: "\<not> handleNamespace example_operation" "handleNamespace ?on"
    by (simp_all add: example_operation_def)
  have b: "DeleteKubeAPIServerService example_steps ?w = (None, ?w)"
    "DeleteETCD example_steps ?w = (None, ?w)"
    "DeleteBackupBucket example_steps ?w = (None, ?w)"
    by (simp_all add: example_steps_def)
  have n: "DeleteNamespace example_steps ?w = (None, example_world\<lparr>deployments := {}\<rparr>)"
    by (simp add: example_steps_def example_world_def)
  note body = deletion_skips_namespace
    [where S = example_steps and op = example_operation and w = ?w
       and body = "\<lambda>w. (Some NotFound, w)", THEN conjunct1]
  note skipped = deletion_skips_namespace
    [where S = example_steps and op = example_operation and w = ?w
       and ?w1.0 = ?w and ?w2.0 = ?w and ?w3.0 = ?w, THEN conjunct2]
  note invoked = deletion_skips_namespace
    [where S = example_steps and op = ?on and w = ?w
       and ?w1.0 = ?w and ?w2.0 = ?w and ?w3.0 = ?w, THEN conjunct2]
  from body h(1)
  have 0: "Delete (example_steps\<lparr>DeleteNamespace := (\<lambda>w. (Some NotFound, w))\<rparr>)
      example_operation ?w = Delete example_steps example_operation ?w"
    by blast
  from skipped b h(1)
  have 1: "Delete example_steps example_operation ?w =
     (Inr \<lparr>outcomes =
             [(''Deleting the service for exposing the virtual garden kube-apiserver'', Succeeded),
              (''Deleting the main and events etcds'', Succeeded),
              (''Deleting the backup bucket for the main etcd'', Succeeded),
              (''Deleting namespace for virtual-garden deployment in hosting cluster'',
               Succeeded)],
           firstFailure = None,
           progress = [(1, 4), (2, 4), (3, 4), (4, 4)]\<rparr>, ?w)"
    by blast
  from invoked b h(2)
  have "Delete example_steps ?on ?w =
          (case DeleteNamespace example_steps ?w of
              (None, w4) \<Rightarrow>
                (Inr \<lparr>outcomes =
             [(''Deleting the service for exposing the virtual garden kube-apiserver'', Succeeded),
              (''Deleting the main and events etcds'', Succeeded),
              (''Deleting the backup bucket for the main etcd'', Succeeded),
              (''Deleting namespace for virtual-garden deployment in hosting cluster'',
               Succeeded)],
           firstFailure = None,
           progress = [(1, 4), (2, 4), (3, 4), (4, 4)]\<rparr>, w4)
            | (Some e, w4) \<Rightarrow>
                (Inr \<lparr>outcomes =
             [(''Deleting the service for exposing the virtual garden kube-apiserver'', Succeeded),
              (''Deleting the main and events etcds'', Succeeded),
              (''Deleting the backup bucket for the main etcd'', Succeeded),
              (''Deleting namespace for virtual-garden deployment in hosting cluster'',
               Failed e)],
           firstFailure =
             Some (''Deleting namespace for virtual-garden deployment in hosting cluster'', e),
           progress = [(1, 4), (2, 4), (3, 4), (4, 4)]\<rparr>, w4))"
    by blast
  then have 2: "Delete example_steps ?on ?w =
     (Inr \<lparr>outcomes =
             [(''Deleting the service for exposing the virtual garden kube-apiserver'', Succeeded),
              (''Deleting the main and events etcds'', Succeeded),
              (''Deleting the backup bucket for the main etcd'', Succeeded),
              (''Deleting namespace for virtual-garden deployment in hosting cluster'',
               Succeeded)],
           firstFailure = None,
           progress = [(1, 4), (2, 4), (3, 4), (4, 4)]\<rparr>,
      example_world\<lparr>deployments := {}\<rparr>)"
    unfolding n by simp
  from h b 0 1 2 show ?thesis by (intro conjI)
qed

text \<open>
  The namespace task is not recorded as skipped: with \<open>handleNamespace\<close> false and the
  other tasks succeeding, its outcome is \<open>Succeeded\<close>, and the world is as the other tasks
  left it.
\<close>

theorem deletion_namespace_Skipped_counterexample:
  "\<not> handleNamespace example_operation \<and>
   Delete example_steps example_operation example_world =
     (Inr \<lparr>outcomes =
             [(''Deleting the service for exposing the virtual garden kube-apiserver'', Succeeded),
              (''Deleting the main and events etcds'', Succeeded),
              (''Deleting the backup bucket for the main etcd'', Succeeded),
              (''Deleting namespace for virtual-garden deployment in hosting cluster'',
               Succeeded)],
           firstFailure = None,
           progress = [(1, 4), (2, 4), (3, 4), (4, 4)]\<rparr>, example_world) \<and>
   map_of (outcomes (projr (fst (Delete example_steps example_operation example_world))))
     ''Deleting namespace for virtual-garden deployment in hosting cluster'' \<noteq> Some Skipped"
proof -
  have h: "\<not> handleNamespace example_operation"
    by (simp add: example_operation_def)
  have d: "Delete example_steps example_operation example_world =
     (Inr \<lparr>outcomes =
             [(''Deleting the service for exposing the virtual garden kube-apiserver'', Succeeded),
              (''Deleting the main and events etcds'', Succeeded),
              (''Deleting the backup bucket for the main etcd'', Succeeded),
              (''Deleting namespace for virtual-garden deployment in hosting cluster'',
               Succeeded)],
           firstFailure = None,
           progress = [(1, 4), (2, 4), (3, 4), (4, 4)]\<rparr>, example_world)"
    unfolding Delete_eq using h
    by (simp add: Run_def record_outcome_def TaskFn_SkipIf_def example_steps_def)
  have "map_of (outcomes (projr (fst (Delete example_steps example_operation example_world))))
     ''Deleting namespace for virtual-garden deployment in hosting cluster'' \<noteq> Some Skipped"
    unfolding d by simp
  with h d show ?thesis by (intro conjI)
qed

end
